theory Spec2Isabelle
  imports Complex_Main
begin

section \<open>IEEE-754 doubles\<close>

text \<open>
  The engine in \<^verbatim>\<open>server/services/intelligence.js\<close> computes with JavaScript numbers,
  which are IEEE-754 binary64 values. \<open>double x\<close> is the real \<open>x\<close> rounded to the nearest
  value with a 53-bit significand, a tie going to the even significand, with gradual
  underflow (the spacing never drops below \<open>2 ^ - 1074\<close>) and no bound on the exponent
  above; \<open>fl\<close> below adds the overflow to an infinity.
\<close>

definition round_even :: "real \<Rightarrow> int" where
  "round_even x =
     (let f = \<lfloor>x\<rfloor>; r = x - of_int f in
      if r < 1 / 2 then f else if 1 / 2 < r then f + 1 else if even f then f else f + 1)"

definition p2 :: "int \<Rightarrow> real" where
  "p2 e = 2 powr of_int e"

text \<open>The exponent of the spacing of the doubles around \<open>x\<close>.\<close>

definition ulp_exp :: "real \<Rightarrow> int" where
  "ulp_exp x = (if x = 0 then - 1074 else max (\<lfloor>log 2 \<bar>x\<bar>\<rfloor> - 52) (- 1074))"

definition double :: "real \<Rightarrow> real" where
  "double x = of_int (round_even (x / p2 (ulp_exp x))) * p2 (ulp_exp x)"

section \<open>JavaScript numbers\<close>

text \<open>
  A number is a finite real, one of the two infinities, or NaN. The result of an
  arithmetic operation on finite numbers is the exact result rounded by \<open>fl\<close>: to the
  nearest double, and to an infinity when that is \<open>2 ^ 1024\<close> or more in magnitude. A
  decimal literal of the source that is not itself a double, such as \<^verbatim>\<open>1.1\<close>, is written
  \<open>Num (double 1.1)\<close>; the other literals (integers, \<^verbatim>\<open>0.5\<close>, \<^verbatim>\<open>1.5\<close>, \<^verbatim>\<open>6.5\<close>) are doubles.

  Zero is unsigned. A non-zero number divided by zero gives the infinity of the
  numerator's sign, which is what JavaScript gives for the positive zero; the only zero
  divisors that occur in the engine are \<^verbatim>\<open>237.3 + temperature\<close> (a sum, so a positive zero)
  and \<^verbatim>\<open>hourlyET / 10\<close> (non-negative, since it comes out of \<^verbatim>\<open>Math.max(0, ...)\<close>).
\<close>

datatype jsnum = Num real | PInf | NInf | NaN

definition fl :: "real \<Rightarrow> jsnum" where
  "fl x = (let y = double x in
           if 2 ^ 1024 \<le> y then PInf else if y \<le> - (2 ^ 1024) then NInf else Num y)"

instantiation jsnum :: "{plus, uminus, minus, times, inverse, ord}"
begin

fun plus_jsnum :: "jsnum \<Rightarrow> jsnum \<Rightarrow> jsnum" where
  "plus_jsnum NaN _ = NaN"
| "plus_jsnum _ NaN = NaN"
| "plus_jsnum (Num a) (Num b) = fl (a + b)"
| "plus_jsnum PInf NInf = NaN"
| "plus_jsnum NInf PInf = NaN"
| "plus_jsnum PInf _ = PInf"
| "plus_jsnum _ PInf = PInf"
| "plus_jsnum NInf _ = NInf"
| "plus_jsnum _ NInf = NInf"

fun uminus_jsnum :: "jsnum \<Rightarrow> jsnum" where
  "uminus_jsnum (Num a) = Num (- a)"
| "uminus_jsnum PInf = NInf"
| "uminus_jsnum NInf = PInf"
| "uminus_jsnum NaN = NaN"

definition minus_jsnum :: "jsnum \<Rightarrow> jsnum \<Rightarrow> jsnum" where
  "minus_jsnum a b = a + (- b)"

fun times_jsnum :: "jsnum \<Rightarrow> jsnum \<Rightarrow> jsnum" where
  "times_jsnum NaN _ = NaN"
| "times_jsnum _ NaN = NaN"
| "times_jsnum (Num a) (Num b) = fl (a * b)"
| "times_jsnum (Num a) PInf = (if 0 < a then PInf else if a < 0 then NInf else NaN)"
| "times_jsnum (Num a) NInf = (if 0 < a then NInf else if a < 0 then PInf else NaN)"
| "times_jsnum PInf (Num b) = (if 0 < b then PInf else if b < 0 then NInf else NaN)"
| "times_jsnum NInf (Num b) = (if 0 < b then NInf else if b < 0 then PInf else NaN)"
| "times_jsnum PInf PInf = PInf"
| "times_jsnum PInf NInf = NInf"
| "times_jsnum NInf PInf = NInf"
| "times_jsnum NInf NInf = PInf"

fun divide_jsnum :: "jsnum \<Rightarrow> jsnum \<Rightarrow> jsnum" where
  "divide_jsnum NaN _ = NaN"
| "divide_jsnum _ NaN = NaN"
| "divide_jsnum (Num a) (Num b) =
     (if b \<noteq> 0 then fl (a / b)
      else if 0 < a then PInf else if a < 0 then NInf else NaN)"
| "divide_jsnum (Num a) PInf = Num 0"
| "divide_jsnum (Num a) NInf = Num 0"
| "divide_jsnum PInf (Num b) = (if 0 \<le> b then PInf else NInf)"
| "divide_jsnum NInf (Num b) = (if 0 \<le> b then NInf else PInf)"
| "divide_jsnum PInf PInf = NaN"
| "divide_jsnum PInf NInf = NaN"
| "divide_jsnum NInf PInf = NaN"
| "divide_jsnum NInf NInf = NaN"

fun inverse_jsnum :: "jsnum \<Rightarrow> jsnum" where
  "inverse_jsnum (Num a) = (if a \<noteq> 0 then fl (1 / a) else PInf)"
| "inverse_jsnum NaN = NaN"
| "inverse_jsnum _ = Num 0"

fun less_jsnum :: "jsnum \<Rightarrow> jsnum \<Rightarrow> bool" where
  "less_jsnum (Num a) (Num b) = (a < b)"
| "less_jsnum NInf (Num b) = True"
| "less_jsnum NInf PInf = True"
| "less_jsnum (Num a) PInf = True"
| "less_jsnum _ _ = False"

fun less_eq_jsnum :: "jsnum \<Rightarrow> jsnum \<Rightarrow> bool" where
  "less_eq_jsnum (Num a) (Num b) = (a \<le> b)"
| "less_eq_jsnum NaN _ = False"
| "less_eq_jsnum _ NaN = False"
| "less_eq_jsnum NInf _ = True"
| "less_eq_jsnum _ PInf = True"
| "less_eq_jsnum _ _ = False"

instance ..

end

text \<open>\<^verbatim>\<open>Math.max\<close> and \<^verbatim>\<open>Math.min\<close> of two arguments: NaN if either is NaN.\<close>

fun Math_max :: "jsnum \<Rightarrow> jsnum \<Rightarrow> jsnum" where
  "Math_max NaN _ = NaN"
| "Math_max _ NaN = NaN"
| "Math_max a b = (if a < b then b else a)"

fun Math_min :: "jsnum \<Rightarrow> jsnum \<Rightarrow> jsnum" where
  "Math_min NaN _ = NaN"
| "Math_min _ NaN = NaN"
| "Math_min a b = (if b < a then b else a)"

fun Math_ceil :: "jsnum \<Rightarrow> jsnum" where
  "Math_ceil (Num a) = Num (of_int \<lceil>a\<rceil>)"
| "Math_ceil x = x"

text \<open>
  \<^verbatim>\<open>Math.round\<close> rounds to the nearest integer, a half towards plus infinity; like
  \<^verbatim>\<open>Math.ceil\<close> and \<^verbatim>\<open>Math.abs\<close> it is exact on doubles.
\<close>

fun Math_round :: "jsnum \<Rightarrow> jsnum" where
  "Math_round (Num a) = Num (of_int \<lfloor>a + 1 / 2\<rfloor>)"
| "Math_round x = x"

fun Math_abs :: "jsnum \<Rightarrow> jsnum" where
  "Math_abs (Num a) = Num \<bar>a\<bar>"
| "Math_abs NaN = NaN"
| "Math_abs _ = PInf"

text \<open>
  \<^verbatim>\<open>Math.exp\<close> and \<^verbatim>\<open>Math.sqrt\<close> are taken to be correctly rounded. For \<^verbatim>\<open>Math.exp\<close> the
  language leaves the last bit to the implementation; what is proved below uses of it
  only that \<^verbatim>\<open>Math.exp(0)\<close> is 1, that the result is never negative, that it is at most
  a power of two that bounds the exponential, and that it is infinite from 1024 on.
\<close>

fun Math_exp :: "jsnum \<Rightarrow> jsnum" where
  "Math_exp (Num a) = fl (exp a)"
| "Math_exp PInf = PInf"
| "Math_exp NInf = Num 0"
| "Math_exp NaN = NaN"

fun Math_sqrt :: "jsnum \<Rightarrow> jsnum" where
  "Math_sqrt (Num a) = (if a < 0 then NaN else fl (sqrt a))"
| "Math_sqrt PInf = PInf"
| "Math_sqrt _ = NaN"

text \<open>Truthiness of a number: zero and NaN are falsy.\<close>

fun truthy :: "jsnum \<Rightarrow> bool" where
  "truthy (Num a) = (a \<noteq> 0)"
| "truthy NaN = False"
| "truthy _ = True"

text \<open>
  A numeric property of an input object is a finite number or absent (\<open>None\<close>, the
  value \<^verbatim>\<open>undefined\<close>); the example inputs below are doubles. In arithmetic and in
  comparisons \<^verbatim>\<open>undefined\<close> converts to NaN.
\<close>

definition num :: "real option \<Rightarrow> jsnum" where
  "num p = (case p of None \<Rightarrow> NaN | Some a \<Rightarrow> Num a)"

text \<open>\<^verbatim>\<open>p || d\<close> for a numeric property \<open>p\<close>: the default replaces an absent or zero value.\<close>

definition or_num :: "real option \<Rightarrow> real \<Rightarrow> real" where
  "or_num p d = (case p of None \<Rightarrow> d | Some a \<Rightarrow> if a \<noteq> 0 then a else d)"

text \<open>\<^verbatim>\<open>s || t\<close> for a string property: the empty string is falsy.\<close>

definition or_str :: "string option \<Rightarrow> string option \<Rightarrow> string option" where
  "or_str s t = (case s of None \<Rightarrow> t | Some a \<Rightarrow> if a \<noteq> [] then Some a else t)"

section \<open>Data model\<close>

record soil =
  moisture :: "real option"
  temp :: "real option"
  ph :: "real option"
  nitrogen :: "real option"
  phosphorus :: "real option"
  potassium :: "real option"

record forecast =
  nextRainHours :: "real option"
  nextRainChance :: "real option"

record weather =
  temperature :: "real option"
  humidity :: "real option"
  chanceOfRain :: "real option"
  windSpeed :: "real option"
  solarRadiation :: "real option"
  forecast :: "forecast option"

text \<open>
  A reading. \<open>timestamp\<close> is a \<^verbatim>\<open>Date\<close>, held as milliseconds since the epoch.
\<close>

record reading =
  soil :: "soil option"
  weather :: "weather option"
  cropType :: "string option"
  timestamp :: "int option"
  field :: "string option"

record crop =
  name :: "string option"

text \<open>The empty object \<^verbatim>\<open>{}\<close> that stands in for a missing weather block.\<close>

definition noWeather :: weather where
  "noWeather = \<lparr>temperature = None, humidity = None, chanceOfRain = None,
     windSpeed = None, solarRadiation = None, forecast = None\<rparr>"

text \<open>
  An entry of \<^verbatim>\<open>cropConfig\<close>. No entry of the table has a \<^verbatim>\<open>kc\<close> property, which
  \<^verbatim>\<open>calculateET\<close> nevertheless reads.
\<close>

record config =
  cfg_min :: "real option"
  cfg_max :: "real option"
  waterPerIrrigation :: "real option"
  rootDepth :: "real option"
  kc :: "real option"

definition profile :: "real \<Rightarrow> real \<Rightarrow> real \<Rightarrow> real \<Rightarrow> config" where
  "profile mn mx w d = \<lparr>cfg_min = Some mn, cfg_max = Some mx,
     waterPerIrrigation = Some w, rootDepth = Some d, kc = None\<rparr>"

definition cropConfig :: "(string \<times> config) list" where
  "cropConfig =
    [(''Rice'', profile 40 70 50 20),
     (''Wheat'', profile 30 50 35 30),
     (''Maize'', profile 35 60 40 40),
     (''Tomato'', profile 35 60 30 30),
     (''Cotton'', profile 40 65 45 50),
     (''Sugarcane'', profile 45 70 55 60),
     (''Tobacco'', profile 30 55 32 35),
     (''Default'', profile 30 60 40 30)]"

text \<open>
  \<^verbatim>\<open>cropConfig\<close> is an object literal, so a lookup by a key that is not in the table still
  finds the members it inherits from \<^verbatim>\<open>Object.prototype\<close>. Each of them is a truthy
  object with none of the profile's properties.
\<close>

definition objectPrototypeKeys :: "string list" where
  "objectPrototypeKeys =
    [''constructor'', ''__defineGetter__'', ''__defineSetter__'', ''hasOwnProperty'',
     ''__lookupGetter__'', ''__lookupSetter__'', ''isPrototypeOf'',
     ''propertyIsEnumerable'', ''toString'', ''valueOf'', ''__proto__'',
     ''toLocaleString'']"

definition inherited :: config where
  "inherited = \<lparr>cfg_min = None, cfg_max = None, waterPerIrrigation = None,
     rootDepth = None, kc = None\<rparr>"

text \<open>\<^verbatim>\<open>this.cropConfig[key]\<close>; \<open>None\<close> is \<^verbatim>\<open>undefined\<close>.\<close>

definition cropConfigAt :: "string \<Rightarrow> config option" where
  "cropConfigAt key =
     (case map_of cropConfig key of
        Some c \<Rightarrow> Some c
      | None \<Rightarrow> if key \<in> set objectPrototypeKeys then Some inherited else None)"

text \<open>\<^verbatim>\<open>currentData.cropType || crop?.name || 'Default'\<close>\<close>

definition resolveCropType :: "reading \<Rightarrow> crop option \<Rightarrow> string" where
  "resolveCropType d crp =
     (case or_str (or_str (cropType d) (case crp of None \<Rightarrow> None | Some c \<Rightarrow> name c))
             (Some ''Default'') of
        Some s \<Rightarrow> s
      | None \<Rightarrow> ''Default'')"

text \<open>\<^verbatim>\<open>this.cropConfig[cropType] || this.cropConfig['Default']\<close>\<close>

definition resolveConfig :: "string \<Rightarrow> config" where
  "resolveConfig ct =
     (case cropConfigAt ct of Some c \<Rightarrow> c | None \<Rightarrow> profile 30 60 40 30)"

text \<open>
  The host clock: \<open>now\<close> is what \<^verbatim>\<open>new Date()\<close> returns (milliseconds since the epoch)
  and \<open>hours\<close> what \<^verbatim>\<open>new Date().getHours()\<close> returns, the local hour of the day.
\<close>

record clock =
  now :: int
  hours :: nat

text \<open>
  A template string is kept as its fixed text, with \<open>{}\<close> at each interpolation, and the
  list of the numbers interpolated; the decimal rendering by \<^verbatim>\<open>toFixed\<close> is not modelled,
  and the Greek sigma of one message is spelled out. \<^verbatim>\<open>toFixed\<close> is only called in branches
  that a comparison has entered, where its receiver is a number, so that none of the four
  functions modelled here throws on a reading of this type.
\<close>

datatype message = Msg string "jsnum list"

text \<open>
  A recommendation. \<open>None\<close> in a field means that the returned object has no such
  property, or that the property is \<^verbatim>\<open>null\<close>.
\<close>

record recommendation =
  action :: string
  reason :: message
  amount :: "jsnum option"
  duration :: "jsnum option"
  recommendedTime :: "string option"
  hoursUntilNext :: "jsnum option"
  priority :: "string option"
  et :: "jsnum option"

section \<open>Evapotranspiration\<close>

definition calculateET :: "weather \<Rightarrow> string \<Rightarrow> jsnum" where
  "calculateET w ct =
     (let temperature = num (temperature w);
          humidity = num (humidity w);
          windSpeed = num (windSpeed w);
          solarRadiation = num (solarRadiation w);
          cropCoefficient =
            or_num (case cropConfigAt ct of None \<Rightarrow> None | Some c \<Rightarrow> kc c) (double 0.8);
          vaporPressureDeficit =
            (Num 1 - humidity / Num 100) * Num (double 0.611)
              * Math_exp (Num (double 17.27) * temperature
                            / (Num (double 237.3) + temperature));
          et0 = (Num (double 0.408) * solarRadiation * vaporPressureDeficit
                   + Num (double 0.063) * windSpeed * vaporPressureDeficit)
                / (temperature + Num (double 237.3));
          etc = et0 * Num cropCoefficient
      in Math_max (Num 0) (etc * Num 24))"

section \<open>Recommendation\<close>

definition getOptimalIrrigationTime :: "clock \<Rightarrow> weather \<Rightarrow> string" where
  "getOptimalIrrigationTime clk w =
     (let hour = hours clk in
      if 5 \<le> hour \<and> hour < 7 then ''06:00 AM''
      else if 18 \<le> hour \<and> hour < 20 then ''07:00 PM''
      else if hour < 5 \<or> 20 \<le> hour then ''06:00 AM (Tomorrow)''
      else ''06:00 AM (Tomorrow)'')"

definition calculateNextIrrigationTime :: "jsnum \<Rightarrow> jsnum \<Rightarrow> jsnum \<Rightarrow> jsnum" where
  "calculateNextIrrigationTime currentMoisture targetMoisture dailyET =
     (let deficit = targetMoisture - currentMoisture in
      if deficit \<le> Num 0 then Num 24
      else
        let hourlyET = dailyET / Num 24;
            hoursToThreshold = deficit / (hourlyET / Num 10)
        in Math_max (Num 1) (Math_min (Num 48) hoursToThreshold))"

definition getPriority :: "string \<Rightarrow> jsnum \<Rightarrow> jsnum \<Rightarrow> jsnum \<Rightarrow> string" where
  "getPriority act moist mn mx =
     (if act = ''Irrigate'' then
        (if moist < mn * Num (double 0.7) then ''Critical''
         else if moist < mn then ''High''
         else ''Medium'')
      else if act = ''Stop'' then ''High''
      else ''Low'')"

text \<open>The object returned while there is no reading or no soil block.\<close>

definition pending :: recommendation where
  "pending = \<lparr>action = ''Pending'', reason = Msg ''Collecting initial data...'' [],
     amount = None, duration = None, recommendedTime = None, hoursUntilNext = None,
     priority = None, et = None\<rparr>"

text \<open>
  The variables \<^verbatim>\<open>action\<close>, \<^verbatim>\<open>amount\<close>, \<^verbatim>\<open>duration\<close>, \<^verbatim>\<open>hoursUntilNext\<close> and \<^verbatim>\<open>reason\<close>
  that the branches after the over-irrigation check assign, as one tuple.
  \<^verbatim>\<open>hoursUntilNext\<close> is \<^verbatim>\<open>null\<close> (\<open>None\<close>) until a branch sets it.
\<close>

definition decide ::
  "jsnum \<Rightarrow> config \<Rightarrow> weather \<Rightarrow> jsnum
     \<Rightarrow> string \<times> jsnum \<times> jsnum \<times> jsnum option \<times> message" where
  "decide moist cfg w dailyET =
     (let mn = num (cfg_min cfg); mx = num (cfg_max cfg);
          wpi = num (waterPerIrrigation cfg);
          moistureDeficit = mx - moist;
          rainInNextHours = (case forecast w of None \<Rightarrow> None | Some f \<Rightarrow> nextRainHours f);
          rainChance = Num (or_num (chanceOfRain w) 0)
      in
      if moist < mn then
        (if truthy (num rainInNextHours) \<and> num rainInNextHours < Num 6
              \<and> Num 50 < rainChance then
           (''Delay'', Num 0, Num 0, Some (num rainInNextHours + Num 2),
            Msg ''Rain expected in {} hours ({}% chance). Delaying irrigation.''
              [num rainInNextHours, rainChance])
         else
           let deficitVolume = (moistureDeficit / Num 100) * num (rootDepth cfg) * Num 10;
               etCompensation = dailyET * Num 0.5;
               amt = Math_max (wpi * Num 0.5)
                       (Math_min (wpi * Num 1.5) (deficitVolume + etCompensation))
           in (''Irrigate'', amt, Math_ceil (amt / Num 1.5),
               Some (calculateNextIrrigationTime moist mx dailyET),
               Msg ''Moisture ({}%) below threshold ({}%). Deficit: {}%.''
                 [moist, mn, moistureDeficit]))
      else if moist < (mn + mx) / Num 2 then
        (let h = calculateNextIrrigationTime moist mx dailyET in
         (''Monitor'', Num 0, Num 0, Some h,
          Msg ''Moisture in lower optimal range. Next irrigation in ~{} hours.''
            [Math_ceil h]))
      else
        (''Maintain'', Num 0, Num 0, None, Msg ''Moisture levels are optimal.'' []))"

definition generateRecommendation ::
  "clock \<Rightarrow> reading option \<Rightarrow> crop option \<Rightarrow> reading list \<Rightarrow> recommendation" where
  "generateRecommendation clk currentData crp historicalData =
     (case currentData of
        None \<Rightarrow> pending
      | Some d \<Rightarrow>
         (case soil d of
            None \<Rightarrow> pending
          | Some sl \<Rightarrow>
             let moist = num (moisture sl);
                 w = (case weather d of None \<Rightarrow> noWeather | Some x \<Rightarrow> x);
                 ct = resolveCropType d crp;
                 cfg = resolveConfig ct;
                 mn = num (cfg_min cfg); mx = num (cfg_max cfg);
                 dailyET = calculateET w ct;
                 isAboveThreshold = mx * Num (double 1.1) < moist;
                 recTime = getOptimalIrrigationTime clk w
             in
             if isAboveThreshold then
               \<lparr>action = ''Stop'',
                reason = Msg ''Moisture ({}%) exceeds safe range. Risk of waterlogging.''
                           [moist],
                amount = Some (Num 0), duration = Some (Num 0),
                recommendedTime = Some ''N/A'', hoursUntilNext = Some (Num 24),
                priority = None, et = None\<rparr>
             else
               (case decide moist cfg w dailyET of
                  (act, amt, dur, hrs, rsn) \<Rightarrow>
                    \<lparr>action = act, reason = rsn,
                     amount = Some (Math_round (amt * Num 10) / Num 10),
                     duration = Some dur,
                     recommendedTime = Some recTime,
                     hoursUntilNext =
                       (case hrs of
                          None \<Rightarrow> None
                        | Some h \<Rightarrow> if truthy h then Some (Math_ceil h) else None),
                     priority = Some (getPriority act moist mn mx),
                     et = Some (Math_round (dailyET * Num 10) / Num 10)\<rparr>)))"

section \<open>Anomaly detection\<close>

record anomaly =
  type_a :: string
  severity :: string
  message :: message
  confidence :: jsnum
  field_a :: string
  timestamp_a :: int
  status :: string

text \<open>\<^verbatim>\<open>r.soil?.moisture\<close>, as a property and as a number.\<close>

definition soilMoisture :: "reading \<Rightarrow> real option" where
  "soilMoisture r = (case soil r of None \<Rightarrow> None | Some s \<Rightarrow> moisture s)"

text \<open>The value of \<^verbatim>\<open>new Date(t)\<close> in a subtraction: NaN for a missing timestamp.\<close>

definition date :: "int option \<Rightarrow> jsnum" where
  "date t = (case t of None \<Rightarrow> NaN | Some ms \<Rightarrow> Num (of_int ms))"

text \<open>
  The properties that all four kinds of anomaly share:
  \<^verbatim>\<open>field: latest.field || 'Field 1'\<close>, \<^verbatim>\<open>timestamp: latest.timestamp || new Date()\<close>
  and \<^verbatim>\<open>status: 'Active'\<close>.
\<close>

definition mkAnomaly ::
  "clock \<Rightarrow> reading \<Rightarrow> string \<Rightarrow> string \<Rightarrow> message \<Rightarrow> jsnum \<Rightarrow> anomaly" where
  "mkAnomaly clk latest ty sev msg conf =
     \<lparr>type_a = ty, severity = sev, message = msg, confidence = conf,
      field_a = (case or_str (field latest) (Some ''Field 1'') of
                   Some s \<Rightarrow> s | None \<Rightarrow> ''Field 1''),
      timestamp_a = (case timestamp latest of Some t \<Rightarrow> t | None \<Rightarrow> now clk),
      status = ''Active''\<rparr>"

definition leakCheck ::
  "clock \<Rightarrow> reading list \<Rightarrow> reading \<Rightarrow> jsnum \<Rightarrow> string \<Rightarrow> anomaly list" where
  "leakCheck clk history latest moist ct =
     (if 2 \<le> length history then
        let previous = history ! (length history - 2);
            rateOfChange = moist - num (soilMoisture previous);
            timeDiff = (date (timestamp latest) - date (timestamp previous))
                         / Num (1000 * 60 * 60)
        in
        if rateOfChange < Num (- 8) \<and> timeDiff < Num 2 then
          let weatherEvaporation =
                calculateET (case weather latest of None \<Rightarrow> noWeather | Some x \<Rightarrow> x) ct
                  * (timeDiff / Num 24);
              expectedDrop = weatherEvaporation / Num 10
          in
          if Math_abs expectedDrop * Num 2 < Math_abs rateOfChange then
            [mkAnomaly clk latest ''Leak'' ''High''
               (Msg ''Sudden moisture drop of {}% in {} hours. Possible leak or pipe break.''
                  [Math_abs rateOfChange, timeDiff])
               (Math_min (Num 95) (Num 70 + Math_abs rateOfChange * Num 2))]
          else []
        else []
      else [])"

definition dryStressCheck ::
  "clock \<Rightarrow> reading list \<Rightarrow> reading \<Rightarrow> jsnum \<Rightarrow> jsnum \<Rightarrow> anomaly list" where
  "dryStressCheck clk recent latest moist mn =
     (let lowMoistureCount = length (filter (\<lambda>r. num (soilMoisture r) < mn) recent) in
      if moist < mn * Num (double 0.8) \<and> 5 \<le> lowMoistureCount then
        [mkAnomaly clk latest ''Dry Stress''
           (if moist < mn * Num (double 0.6) then ''Critical'' else ''High'')
           (Msg ''Soil moisture ({}%) below threshold for extended period. Crop stress risk.''
              [moist])
           (Math_min (Num 95) (Num 75 + (mn - moist) * Num 2))]
      else [])"

definition overIrrigationCheck ::
  "clock \<Rightarrow> reading list \<Rightarrow> reading \<Rightarrow> jsnum \<Rightarrow> jsnum \<Rightarrow> anomaly list" where
  "overIrrigationCheck clk recent latest moist mx =
     (let highMoistureCount =
            length (filter (\<lambda>r. mx * Num (double 1.1) < num (soilMoisture r)) recent) in
      if mx * Num (double 1.15) < moist \<and> 3 \<le> highMoistureCount then
        [mkAnomaly clk latest ''Over-Irrigation''
           (if mx * Num (double 1.3) < moist then ''High'' else ''Medium'')
           (Msg ''Moisture ({}%) exceeds safe range. Risk of waterlogging and root rot.''
              [moist])
           (Math_min (Num 90) (Num 60 + (moist - mx) * Num 1.5))]
      else [])"

definition abnormalPatternCheck :: "clock \<Rightarrow> reading list \<Rightarrow> reading \<Rightarrow> anomaly list" where
  "abnormalPatternCheck clk recent latest =
     (if 5 \<le> length recent then
        let moistureValues = List.map_filter soilMoisture recent;
            n = Num (of_nat (length moistureValues));
            mean = foldl (\<lambda>a b. a + Num b) (Num 0) moistureValues / n;
            variance =
              foldl (\<lambda>sum v. sum + (Num v - mean) * (Num v - mean)) (Num 0) moistureValues / n;
            stdDev = Math_sqrt variance
        in
        if Num 15 < stdDev then
          [mkAnomaly clk latest ''Abnormal Pattern'' ''Medium''
             (Msg (''High moisture variability detected (sigma={}%). ''
                     @ ''Possible sensor issue or inconsistent irrigation.'') [stdDev])
             (Math_min (Num 85) (Num 50 + stdDev * Num 2))]
        else []
      else [])"

text \<open>
  In the check above \<^verbatim>\<open>Math.pow(v - mean, 2)\<close> is the rounded square of the difference.
\<close>

text \<open>
  The four checks push onto \<^verbatim>\<open>anomalies\<close> in this order. \<^verbatim>\<open>history.slice(-10)\<close> is the
  last ten records of the history.
\<close>

definition detectAnomalies ::
  "clock \<Rightarrow> reading list option \<Rightarrow> reading option \<Rightarrow> crop option \<Rightarrow> anomaly list" where
  "detectAnomalies clk history currentData crp =
     (case history of
        None \<Rightarrow> []
      | Some h \<Rightarrow>
         if length h < 5 then []
         else
           let latest = (case currentData of Some d \<Rightarrow> d | None \<Rightarrow> h ! (length h - 1));
               recent = drop (length h - 10) h
           in
           (case soil latest of
              None \<Rightarrow> []
            | Some sl \<Rightarrow>
               let moist = num (moisture sl);
                   ct = resolveCropType latest crp;
                   cfg = resolveConfig ct;
                   mn = num (cfg_min cfg); mx = num (cfg_max cfg)
               in leakCheck clk h latest moist ct
                  @ dryStressCheck clk recent latest moist mn
                  @ overIrrigationCheck clk recent latest moist mx
                  @ abnormalPatternCheck clk recent latest))"

section \<open>Water savings\<close>

record savings =
  saved :: jsnum
  percentage :: jsnum
  baseline :: jsnum
  optimized :: jsnum
  irrigationEvents :: "nat option"
  daysAnalyzed :: "jsnum option"

definition noSavings :: savings where
  "noSavings = \<lparr>saved = Num 0, percentage = Num 0, baseline = Num 0, optimized = Num 0,
     irrigationEvents = None, daysAnalyzed = None\<rparr>"

text \<open>
  The filter of \<^verbatim>\<open>last7Days\<close> by index: a record counts when its moisture is below 0.95
  times the moisture of the record before it in the list.
\<close>

definition countIrrigationEvents :: "reading list \<Rightarrow> nat" where
  "countIrrigationEvents last7Days =
     length (filter (\<lambda>index. index \<noteq> 0 \<and>
               num (soilMoisture (last7Days ! index))
                 < num (soilMoisture (last7Days ! (index - 1))) * Num (double 0.95))
             [0 ..< length last7Days])"

definition calculateWaterSavings ::
  "reading list option \<Rightarrow> recommendation option \<Rightarrow> savings" where
  "calculateWaterSavings historicalData currentRecommendation =
     (case historicalData of
        None \<Rightarrow> noSavings
      | Some h \<Rightarrow>
         if length h < 7 then noSavings
         else
           let days = Math_ceil ((date (timestamp (h ! 0)) - date (timestamp (h ! (length h - 1))))
                                   / Num (1000 * 60 * 60 * 24));
               baselineAmount = Num 40 * days;
               last7Days = take (min 168 (length h)) h;
               events = countIrrigationEvents last7Days;
               avgIrrigationAmount =
                 (case currentRecommendation of
                    None \<Rightarrow> Num 35
                  | Some r \<Rightarrow>
                     (case amount r of
                        None \<Rightarrow> Num 35
                      | Some a \<Rightarrow> if truthy a then a else Num 35));
               optimizedAmount = Num (of_nat events) * avgIrrigationAmount;
               savedAmount = Math_max (Num 0) (baselineAmount - optimizedAmount);
               pct = (if Num 0 < baselineAmount
                      then (savedAmount / baselineAmount) * Num 100 else Num 0)
           in
           \<lparr>saved = Math_round (savedAmount * Num 10) / Num 10,
            percentage = Math_round (pct * Num 10) / Num 10,
            baseline = Math_round (baselineAmount * Num 10) / Num 10,
            optimized = Math_round (optimizedAmount * Num 10) / Num 10,
            irrigationEvents = Some events,
            daysAnalyzed = Some (Math_min (Num 7) days)\<rparr>)"

section \<open>Yield health\<close>

text \<open>The closeness scores \<^verbatim>\<open>Math.max(0, Math.min(1, 1 - Math.abs(target - x) / scale))\<close>.\<close>

definition closeness :: "real \<Rightarrow> real \<Rightarrow> real \<Rightarrow> jsnum" where
  "closeness target x scale =
     Math_max (Num 0) (Math_min (Num 1) (Num 1 - Math_abs (Num target - Num x) / Num scale))"

definition moistureScore :: "jsnum \<Rightarrow> jsnum \<Rightarrow> jsnum \<Rightarrow> jsnum" where
  "moistureScore moist mn mx =
     (if mn \<le> moist \<and> moist \<le> mx then Num 1
      else if moist < mn then Math_max (Num (double 0.2)) (moist / mn)
      else Math_max (Num (double 0.3)) (Num 1 - (moist - mx) / (mx * Num 0.5)))"

definition predictYieldHealth :: "reading option \<Rightarrow> crop option \<Rightarrow> jsnum" where
  "predictYieldHealth data crp =
     (case data of
        None \<Rightarrow> Num 0
      | Some d \<Rightarrow>
         (case (soil d, weather d) of
            (Some sl, Some w) \<Rightarrow>
              let nScore = closeness 80 (or_num (nitrogen sl) 0) 80;
                  pScore = closeness 45 (or_num (phosphorus sl) 0) 45;
                  kScore = closeness 50 (or_num (potassium sl) 0) 50;
                  phScore = (case ph sl of
                               None \<Rightarrow> Num (double 0.7)
                             | Some p \<Rightarrow>
                                if p \<noteq> 0 then closeness 6.5 p 3 else Num (double 0.7));
                  cfg = resolveConfig (resolveCropType d crp);
                  mScore = moistureScore (num (moisture sl))
                             (num (cfg_min cfg)) (num (cfg_max cfg));
                  tempScore = (case temperature w of
                                 None \<Rightarrow> Num (double 0.7)
                               | Some t \<Rightarrow>
                                  if t \<noteq> 0 then closeness 25 t 15
                                  else Num (double 0.7));
                  sunScore = (case solarRadiation w of
                                None \<Rightarrow> Num (double 0.6)
                              | Some s \<Rightarrow>
                                 if s \<noteq> 0 then Math_min (Num 1) (Num s / Num 600)
                                 else Num (double 0.6));
                  finalScore =
                    (nScore * Num (double 0.15) + pScore * Num (double 0.1)
                       + kScore * Num (double 0.1) + phScore * Num (double 0.1)
                       + mScore * Num (double 0.35) + tempScore * Num (double 0.1)
                       + sunScore * Num (double 0.1)) * Num 100
              in Math_max (Num 0) (Math_min (Num 100) (Math_round finalScore))
          | _ \<Rightarrow> Num 0))"
section \<open>The specification's formulas and the example inputs\<close>

text \<open>
  The threshold of the over-irrigation stop, in terms of the reals: the product
  \<^verbatim>\<open>max * 1.1\<close> of the engine is 1.1 times the maximum for the maxima 60, 65 and 70 of the
  crop table, and exceeds it by \<open>2 ^ - 47\<close> for the maxima 50 and 55.
\<close>

definition stopThreshold :: "real \<Rightarrow> real" where
  "stopThreshold mx = (if mx = 50 \<or> mx = 55 then 1.1 * mx + 1 / 2 ^ 47 else 1.1 * mx)"

text \<open>
  The specification's "forecast shows rain within 6 hours with more than 50% chance".
\<close>

definition rainForecast :: "weather \<Rightarrow> bool" where
  "rainForecast w =
     (case forecast w of
        None \<Rightarrow> False
      | Some f \<Rightarrow>
         (case nextRainHours f of
            None \<Rightarrow> False
          | Some h \<Rightarrow> h < 6 \<and> (case chanceOfRain w of None \<Rightarrow> False | Some c \<Rightarrow> 50 < c)))"

text \<open>Example inputs: a reading that has only a crop type and a soil block.\<close>

definition example_soil :: "real option \<Rightarrow> soil" where
  "example_soil m = \<lparr>moisture = m, temp = None, ph = None, nitrogen = None,
      phosphorus = None, potassium = None\<rparr>"

definition example_reading :: "string \<Rightarrow> real option \<Rightarrow> reading" where
  "example_reading ct m = \<lparr>soil = Some (example_soil m), weather = None, cropType = Some ct,
      timestamp = None, field = None\<rparr>"

definition noon :: clock where
  "noon = \<lparr>now = 0, hours = 12\<rparr>"

definition example_weather :: "real \<Rightarrow> real \<Rightarrow> real \<Rightarrow> real \<Rightarrow> weather" where
  "example_weather T hu ws sr = \<lparr>temperature = Some T, humidity = Some hu,
      chanceOfRain = None, windSpeed = Some ws, solarRadiation = Some sr,
      forecast = None\<rparr>"

text \<open>
  The specification's Dry Stress rule: the current reading is \<^verbatim>\<open>currentData\<close> or else the
  last record of the history; the anomaly is due when its moisture is below 0.8 times the
  minimum and at least 5 of the last 10 records of the history are below the minimum. The
  result is the severity, \<open>None\<close> when no anomaly is due.
\<close>

definition belowMin :: "real \<Rightarrow> reading \<Rightarrow> bool" where
  "belowMin mn r = (case soilMoisture r of None \<Rightarrow> False | Some v \<Rightarrow> v < mn)"

definition dryStressExpected ::
  "reading list option \<Rightarrow> reading option \<Rightarrow> crop option \<Rightarrow> string option" where
  "dryStressExpected history currentData crp =
     (case history of
        None \<Rightarrow> None
      | Some h \<Rightarrow>
         (case (case currentData of
                  Some d \<Rightarrow> Some d
                | None \<Rightarrow> if h = [] then None else Some (last h)) of
            None \<Rightarrow> None
          | Some d \<Rightarrow>
             (case (soilMoisture d, cfg_min (resolveConfig (resolveCropType d crp))) of
                (Some m, Some mn) \<Rightarrow>
                  if m < 0.8 * mn \<and> 5 \<le> length (filter (belowMin mn) (drop (length h - 10) h))
                  then Some (if m < 0.6 * mn then ''Critical'' else ''High'')
                  else None
              | _ \<Rightarrow> None)))"

text \<open>Ten consecutive readings for Wheat, all at moisture 22.\<close>

definition dry_history :: "reading list" where
  "dry_history = replicate 10 (example_reading ''Wheat'' (Some 22))"

text \<open>
  A reading with the specification's ideal values for the yield-health score: N 80, P 45,
  K 50, pH 6.5, temperature 25, solar radiation 600, for Wheat; the moisture is a parameter.
\<close>

definition health_soil :: "real option \<Rightarrow> soil" where
  "health_soil m = \<lparr>moisture = m, temp = None, ph = Some 6.5, nitrogen = Some 80,
      phosphorus = Some 45, potassium = Some 50\<rparr>"

definition health_reading :: "real option \<Rightarrow> reading" where
  "health_reading m = \<lparr>soil = Some (health_soil m),
      weather = Some (example_weather 25 50 10 600), cropType = Some ''Wheat'',
      timestamp = None, field = None\<rparr>"

text \<open>Rounding to one decimal, \<^verbatim>\<open>Math.round(x * 10) / 10\<close>.\<close>

definition round1 :: "jsnum \<Rightarrow> jsnum" where
  "round1 x = Math_round (x * Num 10) / Num 10"

text \<open>
  The specification's count of irrigation events, over consecutive pairs of the list: the
  moisture of the second record is below the engine's product of the moisture of the first
  and 0.95.
\<close>

fun dropEvents :: "reading list \<Rightarrow> nat" where
  "dropEvents (p # r # rest) =
     (case (soilMoisture p, soilMoisture r) of
        (Some mp, Some mr) \<Rightarrow> if Num mr < Num mp * Num (double 0.95) then 1 else 0
      | _ \<Rightarrow> 0) + dropEvents (r # rest)"
| "dropEvents _ = 0"

text \<open>The days in the window: the span from the last record to the first, rounded up.\<close>

definition windowDays :: "int \<Rightarrow> int \<Rightarrow> int" where
  "windowDays t0 tn = \<lceil>of_int (t0 - tn) / (86400000::real)\<rceil>"

text \<open>
  The amount that multiplies the events: the recommendation's, or 35 when there is no
  recommendation, it has no amount, or its amount is zero or NaN.
\<close>

definition amountOrDefault :: "recommendation option \<Rightarrow> jsnum" where
  "amountOrDefault rec =
     (case rec of
        None \<Rightarrow> Num 35
      | Some r \<Rightarrow>
         (case amount r of
            None \<Rightarrow> Num 35
          | Some a \<Rightarrow> if a = Num 0 \<or> a = NaN then Num 35 else a))"

text \<open>Seven hourly readings, the newest first, all at moisture 40: a span of six hours.\<close>

definition stamped :: "int \<Rightarrow> real \<Rightarrow> reading" where
  "stamped t m = \<lparr>soil = Some (example_soil (Some m)), weather = None,
     cropType = Some ''Wheat'', timestamp = Some t, field = None\<rparr>"

definition hourly_history :: "reading list" where
  "hourly_history = map (\<lambda>i. stamped (i * 3600000) 40) [6, 5, 4, 3, 2, 1, 0]"

text \<open>
  Seven daily readings, the newest first: the moisture is 30 on two of the days and 40 on
  the day after each of them.
\<close>

definition daily_history :: "reading list" where
  "daily_history =
     map (\<lambda>(i, m). stamped (i * 86400000) m)
       [(6, 40), (5, 30), (4, 40), (3, 30), (2, 40), (1, 40), (0, 40)]"

text \<open>
  The specification's irrigation amount, in the engine's arithmetic:
  \<open>clamp(deficitVolume + 0.5 * dailyET, 0.5 * base, 1.5 * base)\<close> with
  \<open>deficitVolume = (max - moisture) / 100 * rootDepth * 10\<close>; and the ratio of the deficit
  to a tenth of the hourly evapotranspiration, which is clamped to [1, 48].
\<close>

definition clamp :: "jsnum \<Rightarrow> jsnum \<Rightarrow> jsnum \<Rightarrow> jsnum" where
  "clamp x lo hi = Math_max lo (Math_min hi x)"

definition deficitVolume :: "real \<Rightarrow> real \<Rightarrow> real \<Rightarrow> jsnum" where
  "deficitVolume mx m depth = (Num mx - Num m) / Num 100 * Num depth * Num 10"

definition irrigationAmount :: "real \<Rightarrow> real \<Rightarrow> real \<Rightarrow> real \<Rightarrow> jsnum \<Rightarrow> jsnum" where
  "irrigationAmount base mx depth m dailyET =
     clamp (deficitVolume mx m depth + dailyET * Num 0.5)
       (Num base * Num 0.5) (Num base * Num 1.5)"

definition hoursToThreshold :: "real \<Rightarrow> real \<Rightarrow> jsnum \<Rightarrow> jsnum" where
  "hoursToThreshold mx m dailyET = (Num mx - Num m) / (dailyET / Num 24 / Num 10)"

text \<open>A number that is not negative: a finite one or plus infinity, not NaN.\<close>

fun nonneg :: "jsnum \<Rightarrow> bool" where
  "nonneg (Num a) = (0 \<le> a)"
| "nonneg PInf = True"
| "nonneg _ = False"

text \<open>Rice at moisture 38.375, under a given weather.\<close>

definition rice_reading :: "weather \<Rightarrow> reading" where
  "rice_reading w = \<lparr>soil = Some (example_soil (Some 38.375)), weather = Some w,
      cropType = Some ''Rice'', timestamp = None, field = None\<rparr>"


section \<open>Rounding to a double\<close>

text \<open>
  Facts about \<open>double\<close>: it is odd, monotone, and the identity on every
  \<open>n * 2 ^ e\<close> with \<open>\<bar>n\<bar> < 2 ^ 53\<close> and \<open>- 1074 \<le> e\<close>; a positive value in the normal range is
  evaluated from its significand.
\<close>

lemma p2_pos [simp]: "0 < p2 e"
  by (simp add: p2_def)

lemma p2_nonneg [simp]: "0 \<le> p2 e"
  by (simp add: p2_def)

lemma p2_add: "p2 (a + b) = p2 a * p2 b"
  by (simp add: p2_def powr_add)

lemma p2_diff: "p2 (a - b) = p2 a / p2 b"
  by (simp add: p2_def powr_diff)

lemma p2_0 [simp]: "p2 0 = 1"
  by (simp add: p2_def)

lemma p2_nat: "p2 (int n) = 2 ^ n"
  by (simp add: p2_def powr_realpow)

lemma p2_neg_nat: "p2 (- int n) = 1 / 2 ^ n"
  by (simp add: p2_def powr_minus powr_realpow divide_inverse)

lemma p2_mono: "a \<le> b \<Longrightarrow> p2 a \<le> p2 b"
  by (simp add: p2_def)

lemma p2_strict_mono: "a < b \<Longrightarrow> p2 a < p2 b"
  by (simp add: p2_def)

lemma p2_int: "0 \<le> e \<Longrightarrow> p2 e = of_int (2 ^ nat e)"
  using p2_nat[of "nat e"] by simp

lemma round_even_bounds:
  "of_int (round_even x) - 1 / 2 \<le> x" "x \<le> of_int (round_even x) + 1 / 2"
  unfolding round_even_def Let_def by (auto split: if_splits) linarith+

lemma round_even_of_int [simp]: "round_even (of_int n) = n"
  by (simp add: round_even_def)

lemma round_even_mono:
  assumes "x \<le> y"
  shows "round_even x \<le> round_even y"
proof (rule ccontr)
  assume "\<not> round_even x \<le> round_even y"
  then have lt: "round_even y + 1 \<le> round_even x" by simp
  have "of_int (round_even x) - 1 / 2 \<le> x" by (rule round_even_bounds)
  moreover have "y \<le> of_int (round_even y) + 1 / 2" by (rule round_even_bounds)
  moreover have "(of_int (round_even y) :: real) + 1 \<le> of_int (round_even x)"
    using lt by linarith
  ultimately have eq: "x = of_int (round_even y) + 1 / 2" "y = x"
    "of_int (round_even x) = (of_int (round_even y) :: real) + 1"
    using assms by linarith+
  have fx: "\<lfloor>x\<rfloor> = round_even y" using eq(1) by linarith
  have rx: "x - of_int \<lfloor>x\<rfloor> = 1 / 2" using eq(1) fx by simp
  have "round_even x = round_even y" using eq(2) by simp
  with eq(3) show False by simp
qed

lemma round_even_minus: "round_even (- x) = - round_even x"
proof (cases "x = of_int \<lfloor>x\<rfloor>")
  case True
  then obtain n where "x = of_int n" by metis
  then show ?thesis by (simp flip: of_int_minus)
next
  case False
  then have fl: "\<lfloor>- x\<rfloor> = - \<lfloor>x\<rfloor> - 1"
    by (metis ceiling_def ceiling_altdef diff_minus_eq_add minus_diff_eq add.commute
        minus_add_cancel uminus_add_conv_diff floor_of_int of_int_floor_cancel)
  show ?thesis
    unfolding round_even_def Let_def fl
    by (auto split: if_splits)
qed

lemma round_even_le: "x \<le> of_int n \<Longrightarrow> round_even x \<le> n"
  using round_even_mono[of x "of_int n"] by simp

lemma round_even_ge: "of_int n \<le> x \<Longrightarrow> n \<le> round_even x"
  using round_even_mono[of "of_int n" x] by simp

lemma round_even_error: "\<bar>of_int (round_even x) - x\<bar> \<le> 1 / 2"
  using round_even_bounds[of x] by linarith

lemma ulp_exp_minus [simp]: "ulp_exp (- x) = ulp_exp x"
  by (simp add: ulp_exp_def)

lemma round_even_0 [simp]: "round_even 0 = 0"
  using round_even_of_int[of 0] by simp

lemma double_0 [simp]: "double 0 = 0"
  by (simp add: double_def)

lemma double_minus: "double (- x) = - double x"
  by (simp add: double_def round_even_minus)

lemma ulp_exp_ge: "- 1074 \<le> ulp_exp x"
  by (simp add: ulp_exp_def)

text \<open>The binade of a positive number.\<close>

lemma binade:
  assumes "0 < x"
  shows "p2 \<lfloor>log 2 x\<rfloor> \<le> x" and "x < p2 (\<lfloor>log 2 x\<rfloor> + 1)"
  using floor_log_eq_powr_iff[of x 2 "\<lfloor>log 2 x\<rfloor>"] assms by (simp_all add: p2_def)

lemma below_next_binade:
  assumes "0 < x"
  shows "x < p2 (ulp_exp x + 53)"
proof -
  have "x < p2 (\<lfloor>log 2 x\<rfloor> + 1)" by (rule binade[OF assms])
  also have "\<dots> \<le> p2 (ulp_exp x + 53)"
    using assms by (intro p2_mono) (simp add: ulp_exp_def)
  finally show ?thesis .
qed

lemma normal_lower:
  assumes "0 < x" "- 1074 < ulp_exp x"
  shows "p2 (ulp_exp x + 52) \<le> x"
proof -
  have "ulp_exp x = \<lfloor>log 2 x\<rfloor> - 52"
    using assms by (simp add: ulp_exp_def split: if_splits)
  then show ?thesis using binade(1)[OF assms(1)] by simp
qed

lemma ulp_exp_mono:
  assumes "0 < x" "x \<le> y"
  shows "ulp_exp x \<le> ulp_exp y"
proof -
  have "log 2 x \<le> log 2 y" using assms by simp
  then have "\<lfloor>log 2 x\<rfloor> \<le> \<lfloor>log 2 y\<rfloor>" by (rule floor_mono)
  then show ?thesis using assms by (simp add: ulp_exp_def)
qed

lemma double_nonneg: "0 \<le> x \<Longrightarrow> 0 \<le> double x"
  unfolding double_def using round_even_ge[of 0 "x / p2 (ulp_exp x)"]
  by (simp add: zero_le_mult_iff)

lemma double_mono_pos:
  assumes "0 < x" "x \<le> y"
  shows "double x \<le> double y"
proof (cases "ulp_exp x = ulp_exp y")
  case True
  have "x / p2 (ulp_exp y) \<le> y / p2 (ulp_exp y)"
    using assms by (simp add: divide_right_mono)
  then have "round_even (x / p2 (ulp_exp y)) \<le> round_even (y / p2 (ulp_exp y))"
    by (rule round_even_mono)
  then show ?thesis
    by (simp add: double_def True)
next
  case False
  have y: "0 < y" using assms by linarith
  have lt: "ulp_exp x < ulp_exp y" using ulp_exp_mono[OF assms] False by linarith
  then have ny: "- 1074 < ulp_exp y" using ulp_exp_ge[of x] by linarith
  define b where "b = ulp_exp y + 52"
  have by': "p2 b \<le> y" unfolding b_def by (rule normal_lower[OF y ny])
  have "of_int (2 ^ 52) \<le> y / p2 (ulp_exp y)"
  proof -
    have "p2 52 * p2 (ulp_exp y) \<le> y" using by' by (simp add: b_def p2_add mult.commute)
    then have "p2 52 \<le> y / p2 (ulp_exp y)" by (simp add: pos_le_divide_eq)
    then show ?thesis using p2_nat[of 52] by simp
  qed
  then have "2 ^ 52 \<le> round_even (y / p2 (ulp_exp y))" by (rule round_even_ge)
  then have "(2 ^ 52 :: real) \<le> of_int (round_even (y / p2 (ulp_exp y)))"
    by (metis of_int_le_iff of_int_numeral of_int_power)
  then have "p2 52 * p2 (ulp_exp y) \<le> double y"
    unfolding double_def using p2_nat[of 52] by (simp add: mult_right_mono)
  then have ry: "p2 b \<le> double y" by (simp add: b_def p2_add mult.commute)
  have xb: "x \<le> p2 b"
  proof -
    have "x < p2 (ulp_exp x + 53)" by (rule below_next_binade[OF assms(1)])
    also have "\<dots> \<le> p2 b" unfolding b_def using lt by (intro p2_mono) simp
    finally show ?thesis by simp
  qed
  have nb: "0 \<le> b - ulp_exp x" using lt by (simp add: b_def)
  have "x / p2 (ulp_exp x) \<le> p2 (b - ulp_exp x)"
    using xb by (simp add: p2_diff divide_right_mono)
  also have "p2 (b - ulp_exp x) = of_int (2 ^ nat (b - ulp_exp x))"
    by (rule p2_int[OF nb])
  finally have "round_even (x / p2 (ulp_exp x)) \<le> 2 ^ nat (b - ulp_exp x)"
    by (rule round_even_le)
  then have "of_int (round_even (x / p2 (ulp_exp x))) \<le> (of_int (2 ^ nat (b - ulp_exp x)) :: real)"
    by linarith
  then have "of_int (round_even (x / p2 (ulp_exp x))) \<le> p2 (b - ulp_exp x)"
    using p2_int[OF nb] by simp
  then have "double x \<le> p2 (b - ulp_exp x) * p2 (ulp_exp x)"
    unfolding double_def by (simp add: mult_right_mono)
  moreover have "p2 (b - ulp_exp x) * p2 (ulp_exp x) = p2 b"
    using p2_add[of "b - ulp_exp x" "ulp_exp x"] by simp
  ultimately have "double x \<le> p2 b" by simp
  with ry show ?thesis by linarith
qed

lemma double_mono:
  assumes "x \<le> y"
  shows "double x \<le> double y"
proof -
  consider "0 < x" | "x \<le> 0 \<and> 0 \<le> y" | "y < 0" using assms by linarith
  then show ?thesis
  proof cases
    case 1
    then show ?thesis using double_mono_pos assms by simp
  next
    case 2
    then have "double x \<le> 0" using double_nonneg[of "- x"] by (simp add: double_minus)
    moreover have "0 \<le> double y" using 2 double_nonneg by simp
    ultimately show ?thesis by linarith
  next
    case 3
    then have "double (- y) \<le> double (- x)" using assms by (intro double_mono_pos) simp_all
    then show ?thesis by (simp add: double_minus)
  qed
qed

lemma floor_log2_le:
  assumes "0 < x" "x < p2 k"
  shows "\<lfloor>log 2 x\<rfloor> \<le> k - 1"
proof -
  have "log 2 x < of_int k"
    using assms less_powr_iff[of 2 x "of_int k"] by (simp add: p2_def)
  then have "\<lfloor>log 2 x\<rfloor> < k" by (simp add: floor_less_iff)
  then show ?thesis by simp
qed

lemma double_exact_pos:
  assumes x: "x = of_int n * p2 e" and n: "0 < n" "n < 2 ^ 53" and e: "- 1074 \<le> e"
  shows "double x = x"
proof -
  have pos: "0 < x" using x n by simp
  have "of_int n < (of_int (2 ^ 53) :: real)" using n(2) by linarith
  then have "(of_int n :: real) < p2 53" using p2_nat[of 53] by simp
  then have "x < p2 53 * p2 e" using x by simp
  then have "x < p2 (53 + e)" by (simp add: p2_add)
  then have "\<lfloor>log 2 x\<rfloor> \<le> 53 + e - 1" using pos by (intro floor_log2_le)
  then have u: "ulp_exp x \<le> e" using pos e by (simp add: ulp_exp_def)
  define u where "u = ulp_exp x"
  have ue: "0 \<le> e - u" using u by (simp add: u_def)
  have "x / p2 u = of_int n * p2 (e - u)" by (simp add: x p2_diff)
  also have "\<dots> = of_int (n * 2 ^ nat (e - u))" using p2_int[OF ue] by simp
  finally have "x / p2 u = of_int (n * 2 ^ nat (e - u))" .
  then have "round_even (x / p2 u) = n * 2 ^ nat (e - u)"
    by (simp only: round_even_of_int)
  then have "double x = of_int (n * 2 ^ nat (e - u)) * p2 u"
    by (simp add: double_def u_def)
  also have "\<dots> = of_int n * (p2 (e - u) * p2 u)" using p2_int[OF ue] by simp
  also have "p2 (e - u) * p2 u = p2 e" using p2_add[of "e - u" u] by simp
  finally show ?thesis by (simp add: x)
qed

lemma double_exact:
  assumes x: "x = of_int n * p2 e" and n: "\<bar>n\<bar> < 2 ^ 53" and e: "- 1074 \<le> e"
  shows "double x = x"
proof -
  consider "0 < n" | "n = 0" | "n < 0" by linarith
  then show ?thesis
  proof cases
    case 1
    then show ?thesis using double_exact_pos[OF x _ _ e] n by simp
  next
    case 2
    then show ?thesis by (simp add: x)
  next
    case 3
    then have "double (- x) = - x"
      using double_exact_pos[of "- x" "- n" e] n e by (simp add: x)
    then show ?thesis by (simp add: double_minus)
  qed
qed

lemma double_of_int:
  assumes "\<bar>n\<bar> \<le> 2 ^ 53"
  shows "double (of_int n) = of_int n"
proof -
  consider "\<bar>n\<bar> < 2 ^ 53" | "n = 2 ^ 53" | "n = - (2 ^ 53)" using assms by linarith
  then show ?thesis
  proof cases
    case 1
    then show ?thesis by (intro double_exact[where n = n and e = 0]) simp_all
  next
    case 2
    have "double (of_int n) = of_int n"
      by (rule double_exact[where n = "2 ^ 52" and e = 1]) (simp_all add: 2 p2_nat[of 1, simplified])
    then show ?thesis .
  next
    case 3
    have "double (of_int n) = of_int n"
      by (rule double_exact[where n = "- (2 ^ 52)" and e = 1]) (simp_all add: 3 p2_nat[of 1, simplified])
    then show ?thesis .
  qed
qed

lemma double_p2:
  assumes "- 1074 \<le> e"
  shows "double (p2 e) = p2 e"
  by (rule double_exact[where n = 1 and e = e]) (use assms in simp_all)

lemma double_pow2: "double (2 ^ k) = 2 ^ k"
  using double_p2[of "int k"] by (simp add: p2_nat)

lemma round_even_unique:
  assumes "\<bar>x - of_int n\<bar> < 1 / 2"
  shows "round_even x = n"
  using round_even_bounds[of x] assms by linarith

text \<open>Evaluation of a positive value in the normal range, from its scaled integer.\<close>

lemma double_val:
  assumes lo: "2 ^ 52 \<le> x * 2 ^ j" and hi: "x * 2 ^ j < 2 ^ 53" and j: "j \<le> 1074"
    and n: "\<bar>x * 2 ^ j - of_int n\<bar> < 1 / 2"
  shows "double x = of_int n / 2 ^ j"
proof -
  have pj: "(0::real) < 2 ^ j" by simp
  have pos: "0 < x"
  proof (rule ccontr)
    assume "\<not> 0 < x"
    then have "x * 2 ^ j \<le> 0" using pj by (simp add: mult_le_0_iff)
    moreover have "(0::real) < 2 ^ 52" by simp
    ultimately show False using lo by linarith
  qed
  have a: "2 powr real_of_int (52 - int j) \<le> x"
  proof -
    have "2 powr real_of_int (52 - int j) = 2 ^ 52 / 2 ^ j"
      using p2_diff[of 52 "int j"] p2_nat[of 52] p2_nat[of j] by (simp add: p2_def)
    also have "\<dots> \<le> x" using lo pj by (simp add: pos_divide_le_eq)
    finally show ?thesis .
  qed
  have b: "x < 2 powr real_of_int (52 - int j + 1)"
  proof -
    have "x < 2 ^ 53 / 2 ^ j" using hi pj by (simp add: pos_less_divide_eq)
    also have "\<dots> = 2 powr real_of_int (53 - int j)"
      using p2_diff[of 53 "int j"] p2_nat[of 53] p2_nat[of j] by (simp add: p2_def)
    finally show ?thesis by (simp add: algebra_simps)
  qed
  have "\<lfloor>log 2 x\<rfloor> = 52 - int j"
    using floor_log_eq_powr_iff[of x 2 "52 - int j"] pos a b by simp
  then have u: "ulp_exp x = - int j" using pos j by (simp add: ulp_exp_def)
  have "round_even (x / p2 (- int j)) = n"
    using n by (intro round_even_unique) (simp add: p2_neg_nat)
  then show ?thesis by (simp add: double_def u p2_neg_nat)
qed

lemma fl_Num:
  assumes "- (2 ^ 1024) < double x" "double x < 2 ^ 1024"
  shows "fl x = Num (double x)"
  using assms by (simp add: fl_def Let_def)

lemma fl_val:
  assumes lo: "2 ^ 52 \<le> x * 2 ^ j" and hi: "x * 2 ^ j < 2 ^ 53" and j: "j \<le> 1074"
    and n: "\<bar>x * 2 ^ j - of_int n\<bar> < 1 / 2"
  shows "fl x = Num (of_int n / 2 ^ j)"
proof -
  have d: "double x = of_int n / 2 ^ j" by (rule double_val[OF assms])
  have pj: "(1::real) \<le> 2 ^ j" by simp
  have e54: "(2::real) ^ 54 = 2 * 2 ^ 53" and e52: "(1::real) \<le> 2 ^ 52"
    and e53: "(1::real) \<le> 2 ^ 53" by simp_all
  have n1: "(of_int n :: real) < 2 ^ 54" using n hi e54 e53 by linarith
  have n0: "(0::real) < of_int n" using n lo e52 by linarith
  have "(of_int n :: real) / 2 ^ j \<le> of_int n / 1"
    using pj n0 by (intro divide_left_mono) simp_all
  moreover have "(2::real) ^ 54 \<le> 2 ^ 1024" by (intro power_increasing) simp_all
  ultimately have up: "(of_int n :: real) / 2 ^ j < 2 ^ 1024" using n1 by simp
  have "(0::real) \<le> of_int n / 2 ^ j" using n0 by simp
  moreover have "(0::real) < 2 ^ 1024" by simp
  ultimately have dn: "- (2 ^ 1024) < (of_int n :: real) / 2 ^ j" by linarith
  show ?thesis using fl_Num[of x] up dn by (simp add: d)
qed

text \<open>The same at a tie, where the even neighbour is taken.\<close>

lemma round_even_tie:
  assumes "\<bar>x - of_int n\<bar> = 1 / 2" "even n"
  shows "round_even x = n"
proof -
  consider "x = of_int n + 1 / 2" | "x = of_int n - 1 / 2" using assms(1) by linarith
  then show ?thesis
  proof cases
    case 1
    then have f: "\<lfloor>x\<rfloor> = n" by linarith
    have r: "x - of_int n = 1 / 2" using 1 by simp
    show ?thesis unfolding round_even_def Let_def f r using assms(2) by simp
  next
    case 2
    then have f: "\<lfloor>x\<rfloor> = n - 1" by linarith
    have r: "x - of_int (n - 1) = 1 / 2" using 2 by simp
    have "odd (n - 1)" using assms(2) by simp
    then show ?thesis unfolding round_even_def Let_def f r by simp
  qed
qed

lemma double_val_tie:
  assumes lo: "2 ^ 52 \<le> x * 2 ^ j" and hi: "x * 2 ^ j < 2 ^ 53" and j: "j \<le> 1074"
    and n: "\<bar>x * 2 ^ j - of_int n\<bar> = 1 / 2" "even n"
  shows "double x = of_int n / 2 ^ j"
proof -
  have pj: "(0::real) < 2 ^ j" by simp
  have pos: "0 < x"
  proof (rule ccontr)
    assume "\<not> 0 < x"
    then have "x * 2 ^ j \<le> 0" using pj by (simp add: mult_le_0_iff)
    moreover have "(0::real) < 2 ^ 52" by simp
    ultimately show False using lo by linarith
  qed
  have a: "2 powr real_of_int (52 - int j) \<le> x"
  proof -
    have "2 powr real_of_int (52 - int j) = 2 ^ 52 / 2 ^ j"
      using p2_diff[of 52 "int j"] p2_nat[of 52] p2_nat[of j] by (simp add: p2_def)
    also have "\<dots> \<le> x" using lo pj by (simp add: pos_divide_le_eq)
    finally show ?thesis .
  qed
  have b: "x < 2 powr real_of_int (52 - int j + 1)"
  proof -
    have "x < 2 ^ 53 / 2 ^ j" using hi pj by (simp add: pos_less_divide_eq)
    also have "\<dots> = 2 powr real_of_int (53 - int j)"
      using p2_diff[of 53 "int j"] p2_nat[of 53] p2_nat[of j] by (simp add: p2_def)
    finally show ?thesis by (simp add: algebra_simps)
  qed
  have "\<lfloor>log 2 x\<rfloor> = 52 - int j"
    using floor_log_eq_powr_iff[of x 2 "52 - int j"] pos a b by simp
  then have u: "ulp_exp x = - int j" using pos j by (simp add: ulp_exp_def)
  have "round_even (x / p2 (- int j)) = n"
    using n by (intro round_even_tie) (simp_all add: p2_neg_nat)
  then show ?thesis by (simp add: double_def u p2_neg_nat)
qed

lemma fl_val_tie:
  assumes lo: "2 ^ 52 \<le> x * 2 ^ j" and hi: "x * 2 ^ j < 2 ^ 53" and j: "j \<le> 1074"
    and n: "\<bar>x * 2 ^ j - of_int n\<bar> = 1 / 2" "even n"
  shows "fl x = Num (of_int n / 2 ^ j)"
proof -
  have d: "double x = of_int n / 2 ^ j" by (rule double_val_tie[OF assms])
  have pj: "(1::real) \<le> 2 ^ j" by simp
  have e54: "(2::real) ^ 54 = 2 * 2 ^ 53" and e52: "(1::real) \<le> 2 ^ 52"
    and e53: "(1::real) \<le> 2 ^ 53" by simp_all
  have n1: "(of_int n :: real) < 2 ^ 54" using n(1) hi e54 e53 by linarith
  have n0: "(0::real) < of_int n" using n(1) lo e52 by linarith
  have "(of_int n :: real) / 2 ^ j \<le> of_int n / 1"
    using pj n0 by (intro divide_left_mono) simp_all
  moreover have "(2::real) ^ 54 \<le> 2 ^ 1024" by (intro power_increasing) simp_all
  ultimately have up: "(of_int n :: real) / 2 ^ j < 2 ^ 1024" using n1 by simp
  have "(0::real) \<le> of_int n / 2 ^ j" using n0 by simp
  moreover have "(0::real) < 2 ^ 1024" by simp
  ultimately have dn: "- (2 ^ 1024) < (of_int n :: real) / 2 ^ j" by linarith
  show ?thesis using fl_Num[of x] up dn by (simp add: d)
qed

section \<open>Arithmetic on JavaScript numbers\<close>

lemma fl_0 [simp]: "fl 0 = Num 0"
  by (simp add: fl_def)

lemma uminus_fl: "- fl x = fl (- x)"
  by (simp add: fl_def Let_def double_minus)

lemma fl_minus [simp]: "fl (- x) = - fl x"
  by (simp add: uminus_fl)

lemma fl_of_int:
  assumes "\<bar>n\<bar> \<le> 2 ^ 53"
  shows "fl (of_int n) = Num (of_int n)"
proof -
  have d: "double (of_int n) = of_int n" by (rule double_of_int[OF assms])
  have "\<bar>of_int n :: real\<bar> \<le> of_int (2 ^ 53)" using assms by linarith
  then have "\<bar>of_int n :: real\<bar> \<le> 2 ^ 53" by simp
  moreover have "(2::real) ^ 53 < 2 ^ 1024" by (intro power_strict_increasing) simp_all
  ultimately have "- (2 ^ 1024) < (of_int n :: real)" "(of_int n :: real) < 2 ^ 1024"
    by linarith+
  then show ?thesis using fl_Num[of "of_int n"] by (simp add: d)
qed

lemma fl_numeral [simp]:
  "(numeral w :: int) \<le> 2 ^ 53 \<Longrightarrow> fl (numeral w) = Num (numeral w)"
  using fl_of_int[of "numeral w"] by simp

lemma fl_1 [simp]: "fl 1 = Num 1"
  using fl_of_int[of 1] by simp

lemma fl_not_NaN [simp]: "fl x \<noteq> NaN" "NaN \<noteq> fl x"
  by (simp_all add: fl_def Let_def)

text \<open>A result between two doubles of finite magnitude is a finite number between them.\<close>

lemma fl_between:
  assumes "lo \<le> x" "x \<le> hi" "double lo = lo" "double hi = hi"
    and "- (2 ^ 1024) < lo" "hi < 2 ^ 1024"
  shows "\<exists>y. fl x = Num y \<and> lo \<le> y \<and> y \<le> hi"
proof -
  have "double lo \<le> double x" "double x \<le> double hi"
    using assms(1,2) by (simp_all add: double_mono)
  then have b: "lo \<le> double x" "double x \<le> hi" using assms(3,4) by simp_all
  then have "fl x = Num (double x)" using assms(5,6) by (intro fl_Num) linarith+
  with b show ?thesis by simp
qed

lemma fl_nonneg:
  assumes "0 \<le> x"
  shows "fl x = PInf \<or> (\<exists>y. fl x = Num y \<and> 0 \<le> y)"
  using double_nonneg[OF assms] by (simp add: fl_def Let_def)

lemma minus_Num [simp]: "Num a - Num b = fl (a - b)"
  by (simp add: minus_jsnum_def)

lemma NaN_absorbs [simp]:
  "x + NaN = NaN" "NaN + x = NaN" "x * NaN = NaN" "NaN * x = NaN"
  "x / NaN = NaN" "NaN / x = NaN" "x - NaN = NaN" "NaN - x = NaN" "- NaN = NaN"
  by (cases x; simp add: minus_jsnum_def)+

lemma NaN_compare [simp]:
  "(x < NaN) = False" "(NaN < x) = False" "(x \<le> NaN) = False" "(NaN \<le> x) = False"
  by (cases x; simp)+

lemma Math_NaN [simp]:
  "Math_max x NaN = NaN" "Math_min x NaN = NaN"
  by (cases x; simp)+

lemma Math_max_Num [simp]: "Math_max (Num a) (Num b) = Num (max a b)"
  by (simp add: max_def)

lemma Math_min_Num [simp]: "Math_min (Num a) (Num b) = Num (min a b)"
  by (simp add: min_def)

lemma fl_exact:
  assumes "x = of_int n * p2 e" "\<bar>n\<bar> < 2 ^ 53" "- 1074 \<le> e" "\<bar>x\<bar> < 2 ^ 1024"
  shows "fl x = Num x"
proof -
  have "double x = x" by (rule double_exact[OF assms(1-3)])
  then show ?thesis using fl_Num[of x] assms(4) by simp
qed

lemma fl_half:
  assumes "\<bar>k\<bar> < 2 ^ 53"
  shows "fl (of_int k / 2) = Num (of_int k / 2)"
proof -
  have "\<bar>of_int k :: real\<bar> < of_int (2 ^ 53)" using assms by linarith
  then have "\<bar>of_int k / 2 :: real\<bar> < 2 ^ 53" by simp
  moreover have "(2::real) ^ 53 < 2 ^ 1024" by (intro power_strict_increasing) simp_all
  ultimately have "\<bar>of_int k / 2 :: real\<bar> < 2 ^ 1024" by linarith
  then show ?thesis
    using p2_neg_nat[of 1] by (intro fl_exact[where n = k and e = "- 1"] assms) simp_all
qed

lemma double_half:
  assumes "\<bar>k\<bar> < 2 ^ 53"
  shows "double (of_int k / 2) = of_int k / 2"
  using p2_neg_nat[of 1] by (intro double_exact[where n = k and e = "- 1"] assms) simp_all

text \<open>A finite result is below \<open>2 ^ 1024\<close> in magnitude.\<close>

lemma fl_Num_bound:
  assumes "fl x = Num y"
  shows "\<bar>y\<bar> < 2 ^ 1024"
  using assms by (auto simp: fl_def Let_def split: if_splits)

lemma fl_finite:
  assumes "\<bar>x\<bar> \<le> 2 ^ k" "k < 1024"
  shows "\<exists>y. fl x = Num y \<and> \<bar>y\<bar> \<le> 2 ^ k"
proof -
  have "(2::real) ^ k < 2 ^ 1024" using assms(2) by (intro power_strict_increasing) simp_all
  moreover have "(0::real) < 2 ^ k" by simp
  ultimately have "\<exists>y. fl x = Num y \<and> - (2 ^ k) \<le> y \<and> y \<le> 2 ^ k"
    using assms(1) by (intro fl_between) (simp_all add: double_pow2 double_minus)
  then show ?thesis by (auto simp: abs_le_iff)
qed

lemma nonneg_fl: "0 \<le> x \<Longrightarrow> nonneg (fl x)"
  using fl_nonneg[of x] by auto

lemma nonneg_plus: "nonneg x \<Longrightarrow> nonneg y \<Longrightarrow> nonneg (x + y)"
  by (cases x; cases y) (simp_all add: nonneg_fl)

lemma nonneg_times: "nonneg x \<Longrightarrow> 0 < b \<Longrightarrow> nonneg (x * Num b)"
  by (cases x) (simp_all add: nonneg_fl)

lemma nonneg_divide: "nonneg x \<Longrightarrow> 0 < b \<Longrightarrow> nonneg (x / Num b)"
  by (cases x) (simp_all add: nonneg_fl)

lemma nonneg_not_NaN: "nonneg x \<Longrightarrow> x \<noteq> NaN"
  by (cases x) simp_all

text \<open>A clamp of anything but NaN is a finite number within its bounds.\<close>

lemma clamp_range:
  assumes "lo \<le> hi" "x \<noteq> NaN"
  shows "\<exists>a. clamp x (Num lo) (Num hi) = Num a \<and> lo \<le> a \<and> a \<le> hi"
  using assms by (cases x) (auto simp: clamp_def)

text \<open>
  Rounding to one decimal keeps a number between two bounds that are halves of integers.
\<close>

lemma round1_range:
  assumes a: "lo \<le> a" "a \<le> hi" and lo: "lo = of_int kl / 2" and hi: "hi = of_int kh / 2"
    and kl: "\<bar>kl\<bar> \<le> 2 ^ 40" and kh: "\<bar>kh\<bar> \<le> 2 ^ 40"
  shows "\<exists>r. round1 (Num a) = Num r \<and> lo \<le> r \<and> r \<le> hi"
proof -
  have b5: "\<bar>5 * kl\<bar> \<le> 2 ^ 53" "\<bar>5 * kh\<bar> \<le> 2 ^ 53" using kl kh by simp_all
  have bb: "\<bar>kl\<bar> < 2 ^ 53" "\<bar>kh\<bar> < 2 ^ 53" using kl kh by simp_all
  have big: "(2::real) ^ 53 < 2 ^ 1024" by (intro power_strict_increasing) simp_all
  have r5: "\<bar>of_int (5 * kl) :: real\<bar> \<le> 2 ^ 53" "\<bar>of_int (5 * kh) :: real\<bar> \<le> 2 ^ 53"
  proof -
    have "\<bar>of_int (5 * kl) :: real\<bar> \<le> of_int (2 ^ 53)"
      "\<bar>of_int (5 * kh) :: real\<bar> \<le> of_int (2 ^ 53)" using b5 by linarith+
    then show "\<bar>of_int (5 * kl) :: real\<bar> \<le> 2 ^ 53" "\<bar>of_int (5 * kh) :: real\<bar> \<le> 2 ^ 53"
      by simp_all
  qed
  have "\<exists>y. fl (a * 10) = Num y \<and> of_int (5 * kl) \<le> y \<and> y \<le> of_int (5 * kh)"
  proof (rule fl_between)
    show "of_int (5 * kl) \<le> a * 10" using a(1) lo by simp
    show "a * 10 \<le> of_int (5 * kh)" using a(2) hi by simp
    show "double (of_int (5 * kl)) = of_int (5 * kl)" by (rule double_of_int[OF b5(1)])
    show "double (of_int (5 * kh)) = of_int (5 * kh)" by (rule double_of_int[OF b5(2)])
    show "- (2 ^ 1024) < (of_int (5 * kl) :: real)" using r5(1) big by linarith
    show "(of_int (5 * kh) :: real) < 2 ^ 1024" using r5(2) big by linarith
  qed
  then obtain y where y: "Num a * Num 10 = Num y" "of_int (5 * kl) \<le> y" "y \<le> of_int (5 * kh)"
    by auto
  define k where "k = \<lfloor>y + 1 / 2\<rfloor>"
  have k: "5 * kl \<le> k" "k \<le> 5 * kh"
    unfolding k_def using y(2,3) by linarith+
  have rk: "Math_round (Num a * Num 10) = Num (of_int k)" by (simp only: y k_def Math_round.simps)
  have "\<exists>r. fl (of_int k / 10) = Num r \<and> lo \<le> r \<and> r \<le> hi"
  proof (rule fl_between)
    have "(of_int (5 * kl) :: real) \<le> of_int k" "(of_int k :: real) \<le> of_int (5 * kh)"
      using k by linarith+
    then show "lo \<le> of_int k / 10" "of_int k / 10 \<le> hi" using lo hi by simp_all
    show "double lo = lo" unfolding lo by (rule double_half[OF bb(1)])
    show "double hi = hi" unfolding hi by (rule double_half[OF bb(2)])
    have "\<bar>of_int kl :: real\<bar> < of_int (2 ^ 53)" "\<bar>of_int kh :: real\<bar> < of_int (2 ^ 53)"
      using bb by linarith+
    then have "\<bar>lo\<bar> < 2 ^ 53" "\<bar>hi\<bar> < 2 ^ 53" using lo hi by simp_all
    then show "- (2 ^ 1024) < lo" "hi < 2 ^ 1024" using big by linarith+
  qed
  then obtain r where r: "Num (of_int k) / Num 10 = Num r" "lo \<le> r" "r \<le> hi" by auto
  have "round1 (Num a) = Num r" by (simp only: round1_def rk r)
  then show ?thesis using r(2,3) by blast
qed

text \<open>The exponential overflows from 1024 on.\<close>

lemma exp_overflow:
  assumes "1024 \<le> a"
  shows "fl (exp a) = PInf"
proof -
  have "(2::real) \<le> exp 1" using exp_ge_add_one_self[of 1] by simp
  then have "(2::real) ^ 1024 \<le> exp 1 ^ 1024" by (intro power_mono) simp_all
  also have "\<dots> = exp 1024" using exp_of_nat_mult[of 1024 "1::real"] by simp
  also have "\<dots> \<le> exp a" using assms by simp
  finally have "double (2 ^ 1024) \<le> double (exp a)" by (rule double_mono)
  then have "2 ^ 1024 \<le> double (exp a)" unfolding double_pow2 .
  then show ?thesis unfolding fl_def Let_def by (rule if_P)
qed

section \<open>Concrete double values\<close>

text \<open>The thresholds of the crop table: the products of its minima with 0.8, 0.6 and 0.7,
  of its maxima with 1.1, 1.15, 1.3 and 0.5, and of its water amounts with 0.5 and 1.5.\<close>

lemma threshold_double_1: "double (3 / 5) = 5404319552844595 / 9007199254740992"
  using double_val[of "3 / 5" 53 5404319552844595] by simp

lemma threshold_double_2: "double (7 / 10) = 3152519739159347 / 4503599627370496"
  using double_val[of "7 / 10" 53 6305039478318694] by simp

lemma threshold_double_3: "double (4 / 5) = 3602879701896397 / 4503599627370496"
  using double_val[of "4 / 5" 53 7205759403792794] by simp

lemma threshold_double_4: "double (11 / 10) = 2476979795053773 / 2251799813685248"
  using double_val[of "11 / 10" 52 4953959590107546] by simp

lemma threshold_double_5: "double (23 / 20) = 2589569785738035 / 2251799813685248"
  using double_val[of "23 / 20" 52 5179139571476070] by simp

lemma threshold_double_6: "double (13 / 10) = 5854679515581645 / 4503599627370496"
  using double_val[of "13 / 10" 52 5854679515581645] by simp

lemma threshold_fl_1: "fl (35 / 2) = Num (35 / 2)"
  using fl_val[of "35 / 2" 48 4925812092436480] by simp

lemma threshold_fl_2: "fl (81064793292668925 / 4503599627370496) = Num 18"
  using fl_val[of "81064793292668925 / 4503599627370496" 48 5066549580791808] by simp

lemma threshold_fl_3: "fl (47287796087390205 / 2251799813685248) = Num 21"
  using fl_val[of "47287796087390205 / 2251799813685248" 48 5910974510923776] by simp

lemma threshold_fl_4: "fl (189151184349560825 / 9007199254740992) = Num 21"
  using fl_val[of "189151184349560825 / 9007199254740992" 48 5910974510923776] by simp

lemma threshold_fl_5: "fl (45 / 2) = Num (45 / 2)"
  using fl_val[of "45 / 2" 48 6333186975989760] by simp

lemma threshold_fl_6: "fl (27021597764222975 / 1125899906842624) = Num 24"
  using fl_val[of "27021597764222975 / 1125899906842624" 48 6755399441055744] by simp

lemma threshold_fl_7: "fl (54043195528445955 / 2251799813685248) = Num 24"
  using fl_val[of "54043195528445955 / 2251799813685248" 48 6755399441055744] by simp

lemma threshold_fl_8: "fl (110338190870577145 / 4503599627370496) = Num (49 / 2)"
  using fl_val[of "110338190870577145 / 4503599627370496" 48 6896136929411072] by simp

lemma threshold_fl_9: "fl (243194379878006775 / 9007199254740992) = Num 27"
  using fl_val[of "243194379878006775 / 9007199254740992" 48 7599824371187712] by simp

lemma threshold_fl_10: "fl (55 / 2) = Num (55 / 2)"
  using fl_val[of "55 / 2" 48 7740561859543040] by simp

lemma threshold_fl_11: "fl (15762598695796735 / 562949953421312) = Num 28"
  using fl_val_tie[of "15762598695796735 / 562949953421312" 48 7881299347898368] by simp

lemma threshold_fl_12: "fl (126100789566373895 / 4503599627370496) = Num 28"
  using fl_val[of "126100789566373895 / 4503599627370496" 48 7881299347898368] by simp

lemma threshold_fl_13: "fl (141863388262170615 / 4503599627370496) = Num (8866461766385663 / 281474976710656)"
  using fl_val[of "141863388262170615 / 4503599627370496" 48 8866461766385663] by simp

lemma threshold_fl_14: "fl (18014398509481985 / 562949953421312) = Num 32"
  using fl_val[of "18014398509481985 / 562949953421312" 47 4503599627370496] by simp

lemma threshold_fl_15: "fl (65 / 2) = Num (65 / 2)"
  using fl_val[of "65 / 2" 47 4573968371548160] by simp

lemma threshold_fl_16: "fl (162129586585337865 / 4503599627370496) = Num 36"
  using fl_val[of "162129586585337865 / 4503599627370496" 47 5066549580791808] by simp

lemma threshold_fl_17: "fl (105 / 2) = Num (105 / 2)"
  using fl_val[of "105 / 2" 47 7388718138654720] by simp

lemma threshold_fl_18: "fl (61924494876344325 / 1125899906842624) = Num (7740561859543041 / 140737488355328)"
  using fl_val[of "61924494876344325 / 1125899906842624" 47 7740561859543041] by simp

lemma threshold_fl_19: "fl (64739244643450875 / 1125899906842624) = Num (8092405580431359 / 140737488355328)"
  using fl_val[of "64739244643450875 / 1125899906842624" 47 8092405580431359] by simp

lemma threshold_fl_20: "fl (136233888727957515 / 2251799813685248) = Num (8514618045497345 / 140737488355328)"
  using fl_val[of "136233888727957515 / 2251799813685248" 47 8514618045497345] by simp

lemma threshold_fl_21: "fl (142426338215591925 / 2251799813685248) = Num (8901646138474495 / 140737488355328)"
  using fl_val[of "142426338215591925 / 2251799813685248" 47 8901646138474495] by simp

lemma threshold_fl_22: "fl (146366987889541125 / 2251799813685248) = Num 65"
  using fl_val[of "146366987889541125 / 2251799813685248" 46 4573968371548160] by simp

lemma threshold_fl_23: "fl (37154696925806595 / 562949953421312) = Num 66"
  using fl_val[of "37154696925806595 / 562949953421312" 46 4644337115725824] by simp

lemma threshold_fl_24: "fl (135 / 2) = Num (135 / 2)"
  using fl_val[of "135 / 2" 46 4749890231992320] by simp

lemma threshold_fl_25: "fl (38843546786070525 / 562949953421312) = Num 69"
  using fl_val[of "38843546786070525 / 562949953421312" 46 4855443348258816] by simp

lemma threshold_fl_26: "fl (322007373356990475 / 4503599627370496) = Num (143 / 2)"
  using fl_val[of "322007373356990475 / 4503599627370496" 46 5031365208702976] by simp

lemma threshold_fl_27: "fl (161003686678495245 / 2251799813685248) = Num (143 / 2)"
  using fl_val[of "161003686678495245 / 2251799813685248" 46 5031365208702976] by simp

lemma threshold_fl_28: "fl (168322036072972275 / 2251799813685248) = Num (299 / 4)"
  using fl_val[of "168322036072972275 / 2251799813685248" 46 5260063627280384] by simp

lemma threshold_fl_29: "fl (86694292826882055 / 1125899906842624) = Num 77"
  using fl_val[of "86694292826882055 / 1125899906842624" 46 5418393301680128] by simp

lemma threshold_fl_30: "fl (87820192733724675 / 1125899906842624) = Num 78"
  using fl_val[of "87820192733724675 / 1125899906842624" 46 5488762045857792] by simp

lemma threshold_fl_31: "fl (90634942500831225 / 1125899906842624) = Num (161 / 2)"
  using fl_val[of "90634942500831225 / 1125899906842624" 46 5664683906301952] by simp

lemma threshold_fl_32: "fl (165 / 2) = Num (165 / 2)"
  using fl_val[of "165 / 2" 46 5805421394657280] by simp

lemma threshold_fl_33: "fl (380554168512806925 / 4503599627370496) = Num (169 / 2)"
  using fl_val[of "380554168512806925 / 4503599627370496" 46 5946158883012608] by simp

lemma threshold_fl_34: "fl (204913783045357575 / 2251799813685248) = Num 91"
  using fl_val[of "204913783045357575 / 2251799813685248" 46 6403555720167424] by simp

lemmas threshold_values = threshold_double_1
  threshold_double_2
  threshold_double_3
  threshold_double_4
  threshold_double_5
  threshold_double_6
  threshold_fl_1
  threshold_fl_2
  threshold_fl_3
  threshold_fl_4
  threshold_fl_5
  threshold_fl_6
  threshold_fl_7
  threshold_fl_8
  threshold_fl_9
  threshold_fl_10
  threshold_fl_11
  threshold_fl_12
  threshold_fl_13
  threshold_fl_14
  threshold_fl_15
  threshold_fl_16
  threshold_fl_17
  threshold_fl_18
  threshold_fl_19
  threshold_fl_20
  threshold_fl_21
  threshold_fl_22
  threshold_fl_23
  threshold_fl_24
  threshold_fl_25
  threshold_fl_26
  threshold_fl_27
  threshold_fl_28
  threshold_fl_29
  threshold_fl_30
  threshold_fl_31
  threshold_fl_32
  threshold_fl_33
  threshold_fl_34

text \<open>The yield-health score of the specification's example.\<close>

lemma health_double_1: "double (1 / 10) = 3602879701896397 / 36028797018963968"
  using double_val[of "1 / 10" 56 7205759403792794] by simp

lemma health_double_2: "double (3 / 20) = 5404319552844595 / 36028797018963968"
  using double_val[of "3 / 20" 55 5404319552844595] by simp

lemma health_double_3: "double (7 / 20) = 3152519739159347 / 9007199254740992"
  using double_val[of "7 / 20" 54 6305039478318694] by simp

lemma health_fl_1: "fl (3602879701896397 / 36028797018963968) = Num (3602879701896397 / 36028797018963968)"
  using fl_val[of "3602879701896397 / 36028797018963968" 56 7205759403792794] by simp

lemma health_fl_2: "fl (5404319552844595 / 36028797018963968) = Num (5404319552844595 / 36028797018963968)"
  using fl_val[of "5404319552844595 / 36028797018963968" 55 5404319552844595] by simp

lemma health_fl_3: "fl (1 / 4) = Num (1 / 4)"
  using fl_val[of "1 / 4" 54 4503599627370496] by simp

lemma health_fl_4: "fl (3152519739159347 / 9007199254740992) = Num (3152519739159347 / 9007199254740992)"
  using fl_val[of "3152519739159347 / 9007199254740992" 54 6305039478318694] by simp

lemma health_fl_5: "fl (12610078956637389 / 36028797018963968) = Num (3152519739159347 / 9007199254740992)"
  using fl_val_tie[of "12610078956637389 / 36028797018963968" 54 6305039478318694] by simp

lemma health_fl_6: "fl (16212958658533785 / 36028797018963968) = Num (2026619832316723 / 4503599627370496)"
  using fl_val_tie[of "16212958658533785 / 36028797018963968" 54 8106479329266892] by simp

lemma health_fl_7: "fl (7205759403792793 / 9007199254740992) = Num (7205759403792793 / 9007199254740992)"
  using fl_val[of "7205759403792793 / 9007199254740992" 53 7205759403792793] by simp

lemma health_fl_8: "fl (32425917317067569 / 36028797018963968) = Num (2026619832316723 / 2251799813685248)"
  using fl_val[of "32425917317067569 / 36028797018963968" 53 8106479329266892] by simp

lemma health_fl_9: "fl (36028797018963965 / 36028797018963968) = Num (9007199254740991 / 9007199254740992)"
  using fl_val[of "36028797018963965 / 36028797018963968" 53 9007199254740991] by simp

lemma health_fl_10: "fl (225179981368524775 / 2251799813685248) = Num (7036874417766399 / 70368744177664)"
  using fl_val[of "225179981368524775 / 2251799813685248" 46 7036874417766399] by simp

lemmas health_values = health_double_1
  health_double_2
  health_double_3
  health_fl_1
  health_fl_2
  health_fl_3
  health_fl_4
  health_fl_5
  health_fl_6
  health_fl_7
  health_fl_8
  health_fl_9
  health_fl_10

text \<open>The water savings of the example histories.\<close>

lemma savings_double_1: "double (19 / 20) = 4278419646001971 / 4503599627370496"
  using double_val[of "19 / 20" 53 8556839292003942] by simp

lemma savings_double_2: "double (209 / 10) = 2941413506626355 / 140737488355328"
  using double_val[of "209 / 10" 48 5882827013252710] by simp

lemma savings_fl_1: "fl (1 / 4) = Num (1 / 4)"
  using fl_val[of "1 / 4" 54 4503599627370496] by simp

lemma savings_fl_2: "fl (17 / 24) = Num (6380099472108203 / 9007199254740992)"
  using fl_val[of "17 / 24" 53 6380099472108203] by simp

lemma savings_fl_3: "fl (47062616106021681 / 2251799813685248) = Num (2941413506626355 / 140737488355328)"
  using fl_val[of "47062616106021681 / 2251799813685248" 48 5882827013252710] by simp

lemma savings_fl_4: "fl (64176294690029565 / 2251799813685248) = Num (57 / 2)"
  using fl_val[of "64176294690029565 / 2251799813685248" 48 8022036836253696] by simp

lemma savings_fl_5: "fl (21392098230009855 / 562949953421312) = Num 38"
  using fl_val[of "21392098230009855 / 562949953421312" 47 5348024557502464] by simp

lemma savings_fl_6: "fl (354 / 5) = Num (4982107087778611 / 70368744177664)"
  using fl_val[of "354 / 5" 46 4982107087778611] by simp

lemma savings_fl_7: "fl (159502486802705075 / 2251799813685248) = Num (2492226356292267 / 35184372088832)"
  using fl_val[of "159502486802705075 / 2251799813685248" 46 4984452712584534] by simp

lemma savings_fl_8: "fl (12461131781461335 / 17592186044416) = Num (1557641472682667 / 2199023255552)"
  using fl_val_tie[of "12461131781461335 / 17592186044416" 43 6230565890730668] by simp

lemmas savings_values = savings_double_1
  savings_double_2
  savings_fl_1
  savings_fl_2
  savings_fl_3
  savings_fl_4
  savings_fl_5
  savings_fl_6
  savings_fl_7
  savings_fl_8








text \<open>The evapotranspiration at temperature 0, where the exponential is 1, and the
  exponent at temperature -240.\<close>

lemma et_double_1: "double (63 / 1000) = 1134907106097365 / 18014398509481984"
  using double_val[of "63 / 1000" 56 4539628424389460] by simp

lemma et_double_2: "double (51 / 125) = 7349874591868649 / 18014398509481984"
  using double_val[of "51 / 125" 54 7349874591868649] by simp

lemma et_double_3: "double (611 / 1000) = 2751699372323373 / 4503599627370496"
  using double_val[of "611 / 1000" 53 5503398744646746] by simp

lemma et_double_4: "double (4 / 5) = 3602879701896397 / 4503599627370496"
  using double_val[of "4 / 5" 53 7205759403792794] by simp

lemma et_double_5: "double (1727 / 100) = 4861072847793029 / 281474976710656"
  using double_val[of "1727 / 100" 48 4861072847793029] by simp

lemma et_double_6: "double (2373 / 10) = 4174625748339917 / 17592186044416"
  using double_val[of "2373 / 10" 45 8349251496679834] by simp

lemma et_fl_1: "fl (17045634472061079481485180894537 / 81129638414606681695789005144064) = Num (3784891172045297 / 18014398509481984)"
  using fl_val[of "17045634472061079481485180894537 / 81129638414606681695789005144064" 55 7569782344090594] by simp

lemma et_fl_2: "fl (8771041749280751 / 33397005986719336) = Num (4731113965056621 / 18014398509481984)"
  using fl_val[of "8771041749280751 / 33397005986719336" 54 4731113965056621] by simp

lemma et_fl_3: "fl (2751699372323373 / 9007199254740992) = Num (2751699372323373 / 9007199254740992)"
  using fl_val[of "2751699372323373 / 9007199254740992" 54 5503398744646746] by simp

lemma et_fl_4: "fl (1 / 2) = Num (1 / 2)"
  using fl_val[of "1 / 2" 53 4503599627370496] by simp

lemma et_fl_5: "fl (47498902319923 / 17592186044416) = Num (47498902319923 / 17592186044416)"
  using fl_val[of "47498902319923 / 17592186044416" 51 6079859496950144] by simp

lemma et_fl_6: "fl (11354673516135891 / 2251799813685248) = Num (2838668379033973 / 562949953421312)"
  using fl_val_tie[of "11354673516135891 / 2251799813685248" 50 5677336758067946] by simp

lemma et_fl_7: "fl (8771041749280751 / 140737488355328) = Num (8771041749280751 / 140737488355328)"
  using fl_val[of "8771041749280751 / 140737488355328" 47 8771041749280751] by simp

lemma et_fl_8: "fl (140336667988492023 / 2251799813685248) = Num (8771041749280751 / 140737488355328)"
  using fl_val[of "140336667988492023 / 2251799813685248" 47 8771041749280751] by simp

lemma et_fl_9: "fl (918734323983581125 / 4503599627370496) = Num 204"
  using fl_val[of "918734323983581125 / 4503599627370496" 45 7177611906121728] by simp

lemma et_fl_10: "fl (4174625748339917 / 17592186044416) = Num (4174625748339917 / 17592186044416)"
  using fl_val[of "4174625748339917 / 17592186044416" 45 8349251496679834] by simp

lemma et_fl_11: "fl (72916092716895440 / 47498902319923) = Num (1687872516594809 / 1099511627776)"
  using fl_val[of "72916092716895440 / 47498902319923" 42 6751490066379236] by simp

lemma et_fl_12: "fl (72916092716895435 / 17592186044416) = Num (4557255794805965 / 1099511627776)"
  using fl_val[of "72916092716895435 / 17592186044416" 40 4557255794805965] by simp

lemmas et_values = et_double_1
  et_double_2
  et_double_3
  et_double_4
  et_double_5
  et_double_6
  et_fl_1
  et_fl_2
  et_fl_3
  et_fl_4
  et_fl_5
  et_fl_6
  et_fl_7
  et_fl_8
  et_fl_9
  et_fl_10
  et_fl_11
  et_fl_12

text \<open>The irrigation of Rice at moisture 38.375.\<close>

lemma irrigate_double_1: "double (316 / 5) = 4447304632028365 / 70368744177664"
  using double_val[of "316 / 5" 47 8894609264056730] by simp

lemma irrigate_double_2: "double (329 / 5) = 4630263366890291 / 70368744177664"
  using double_val[of "329 / 5" 46 4630263366890291] by simp

lemma irrigate_fl_1: "fl (1513956468818119 / 72057594037927936) = Num (1513956468818119 / 72057594037927936)"
  using fl_val[of "1513956468818119 / 72057594037927936" 58 6055825875272476] by simp

lemma irrigate_fl_2: "fl (2838668379033973 / 13510798882111488) = Num (7569782344090595 / 36028797018963968)"
  using fl_val[of "2838668379033973 / 13510798882111488" 55 7569782344090595] by simp

lemma irrigate_fl_3: "fl (253 / 800) = Num (5697053528623677 / 18014398509481984)"
  using fl_val[of "253 / 800" 54 5697053528623677] by simp

lemma irrigate_fl_4: "fl (2838668379033973 / 1125899906842624) = Num (2838668379033973 / 1125899906842624)"
  using fl_val[of "2838668379033973 / 1125899906842624" 51 5677336758067946] by simp

lemma irrigate_fl_5: "fl (28485267643118385 / 4503599627370496) = Num (1780329227694899 / 281474976710656)"
  using fl_val[of "28485267643118385 / 4503599627370496" 50 7121316910779596] by simp

lemma irrigate_fl_6: "fl (253 / 8) = Num (253 / 8)"
  using fl_val[of "253 / 8" 48 8901646138474496] by simp

lemma irrigate_fl_7: "fl (8901646138474495 / 211106232532992) = Num (5934430758982997 / 140737488355328)"
  using fl_val[of "8901646138474495 / 211106232532992" 47 5934430758982997] by simp

lemma irrigate_fl_8: "fl (1542746614308957 / 35184372088832) = Num (1542746614308957 / 35184372088832)"
  using fl_val[of "1542746614308957 / 35184372088832" 47 6170986457235828] by simp

lemma irrigate_fl_9: "fl (14193341895169865 / 281474976710656) = Num (1774167736896233 / 35184372088832)"
  using fl_val_tie[of "14193341895169865 / 281474976710656" 47 7096670947584932] by simp

lemma irrigate_fl_10: "fl (316 / 5) = Num (4447304632028365 / 70368744177664)"
  using fl_val[of "316 / 5" 47 8894609264056730] by simp

lemma irrigate_fl_11: "fl (8901646138474495 / 140737488355328) = Num (8901646138474495 / 140737488355328)"
  using fl_val[of "8901646138474495 / 140737488355328" 47 8901646138474495] by simp

lemma irrigate_fl_12: "fl (74051837486829933 / 1125899906842624) = Num (4628239842926871 / 70368744177664)"
  using fl_val[of "74051837486829933 / 1125899906842624" 46 4628239842926871] by simp

lemma irrigate_fl_13: "fl (329 / 5) = Num (4630263366890291 / 70368744177664)"
  using fl_val[of "329 / 5" 46 4630263366890291] by simp

lemma irrigate_fl_14: "fl (44508230692372475 / 70368744177664) = Num (5563528836546559 / 8796093022208)"
  using fl_val[of "44508230692372475 / 70368744177664" 43 5563528836546559] by simp

lemma irrigate_fl_15: "fl (23141199214634355 / 35184372088832) = Num (5785299803658589 / 8796093022208)"
  using fl_val[of "23141199214634355 / 35184372088832" 43 5785299803658589] by simp

lemma irrigate_fl_16: "fl (2278821411449470976 / 1513956468818119) = Num (6619980669509255 / 4398046511104)"
  using fl_val[of "2278821411449470976 / 1513956468818119" 42 6619980669509255] by simp

lemmas irrigate_values = irrigate_double_1
  irrigate_double_2
  irrigate_fl_1
  irrigate_fl_2
  irrigate_fl_3
  irrigate_fl_4
  irrigate_fl_5
  irrigate_fl_6
  irrigate_fl_7
  irrigate_fl_8
  irrigate_fl_9
  irrigate_fl_10
  irrigate_fl_11
  irrigate_fl_12
  irrigate_fl_13
  irrigate_fl_14
  irrigate_fl_15
  irrigate_fl_16


section \<open>Auxiliary facts\<close>

lemma num_simps [simp]: "num None = NaN" "num (Some a) = Num a"
  by (simp_all add: num_def)

lemma profile_sel [simp]:
  "cfg_min (profile mn mx base depth) = Some mn"
  "cfg_max (profile mn mx base depth) = Some mx"
  "waterPerIrrigation (profile mn mx base depth) = Some base"
  "rootDepth (profile mn mx base depth) = Some depth"
  by (simp_all add: profile_def)

lemma inherited_sel [simp]:
  "cfg_min inherited = None" "cfg_max inherited = None"
  "waterPerIrrigation inherited = None" "rootDepth inherited = None"
  by (simp_all add: inherited_def)

lemma resolve_example [simp]:
  "ct \<noteq> [] \<Longrightarrow> resolveCropType (example_reading ct m) crp = ct"
  by (simp add: resolveCropType_def example_reading_def or_str_def)

lemma resolveConfig_Wheat [simp]: "resolveConfig ''Wheat'' = profile 30 50 35 30"
  by (simp add: resolveConfig_def cropConfigAt_def cropConfig_def)

lemma resolveConfig_Rice [simp]: "resolveConfig ''Rice'' = profile 40 70 50 20"
  by (simp add: resolveConfig_def cropConfigAt_def cropConfig_def)

text \<open>Every profile the engine can resolve: a row of the table, or an inherited member.\<close>

lemma resolveConfig_rows:
  "resolveConfig ct \<in> {inherited, profile 40 70 50 20, profile 30 50 35 30,
     profile 35 60 40 40, profile 35 60 30 30, profile 40 65 45 50, profile 45 70 55 60,
     profile 30 55 32 35, profile 30 60 40 30}"
  by (simp add: resolveConfig_def cropConfigAt_def cropConfig_def)

lemma resolveConfig_cases:
  obtains "resolveConfig ct = inherited"
  | "resolveConfig ct = profile 40 70 50 20"
  | "resolveConfig ct = profile 30 50 35 30"
  | "resolveConfig ct = profile 35 60 40 40"
  | "resolveConfig ct = profile 35 60 30 30"
  | "resolveConfig ct = profile 40 65 45 50"
  | "resolveConfig ct = profile 45 70 55 60"
  | "resolveConfig ct = profile 30 55 32 35"
  | "resolveConfig ct = profile 30 60 40 30"
  using resolveConfig_rows[of ct] by blast

lemma kc_absent: "cropConfigAt ct = Some c \<Longrightarrow> kc c = None"
  by (auto simp: cropConfigAt_def cropConfig_def profile_def inherited_def
           split: option.splits if_splits)

lemma cropCoefficient [simp]:
  "or_num (case cropConfigAt ct of None \<Rightarrow> None | Some c \<Rightarrow> kc c) d = d"
  by (cases "cropConfigAt ct") (simp_all add: or_num_def kc_absent)

lemma calculateET_noWeather [simp]: "calculateET noWeather ct = NaN"
  by (simp add: calculateET_def noWeather_def)

lemmas gen_defs = generateRecommendation_def Let_def profile_def example_reading_def
  example_soil_def decide_def noWeather_def getPriority_def calculateNextIrrigationTime_def
  resolveCropType_def or_str_def calculateET_def pending_def getOptimalIrrigationTime_def
  noon_def

section \<open>Recommendation: over-irrigation\<close>

text \<open>The engine's product \<^verbatim>\<open>max * 1.1\<close> for the maxima of the crop table.\<close>

lemma stop_product:
  assumes "cfg_max (resolveConfig ct) = Some mx"
  shows "Num mx * Num (double 1.1) = Num (stopThreshold mx)"
  using assms
  by (cases rule: resolveConfig_cases[of ct])
     (auto simp: stopThreshold_def threshold_values)

lemma decide_not_stop: "fst (decide moist cfg w dailyET) \<noteq> ''Stop''"
  by (simp add: decide_def Let_def)

text \<open>
  Claim C1, amended. The engine stops irrigation exactly when the soil moisture exceeds
  its product \<^verbatim>\<open>max * 1.1\<close>, which is \<open>stopThreshold max\<close>; it then returns the action
  "Stop" with amount 0 and 24 hours until the next check.
\<close>

theorem stop_above_threshold:
  assumes "soil d = Some sl" and "moisture sl = Some m"
    and "cfg_max (resolveConfig (resolveCropType d crp)) = Some mx"
  shows "(action (generateRecommendation clk (Some d) crp hist) = ''Stop'')
           = (stopThreshold mx < m)
       \<and> (stopThreshold mx < m \<longrightarrow>
            amount (generateRecommendation clk (Some d) crp hist) = Some (Num 0)
          \<and> hoursUntilNext (generateRecommendation clk (Some d) crp hist) = Some (Num 24))"
proof -
  have p: "Num mx * Num (double 1.1) = Num (stopThreshold mx)"
    by (rule stop_product[OF assms(3)])
  show ?thesis
  proof (cases "stopThreshold mx < m")
    case True
    then show ?thesis
      using assms(1,2)
      by (simp add: generateRecommendation_def Let_def assms(3) p del: times_jsnum.simps)
  next
    case False
    let ?w = "case weather d of None \<Rightarrow> noWeather | Some x \<Rightarrow> x"
    let ?ct = "resolveCropType d crp"
    obtain act amt dur hrs rsn
      where dec: "decide (Num m) (resolveConfig ?ct) ?w (calculateET ?w ?ct)
                    = (act, amt, dur, hrs, rsn)"
      by (cases "decide (Num m) (resolveConfig ?ct) ?w (calculateET ?w ?ct)") auto
    have "act \<noteq> ''Stop''"
      using decide_not_stop[of "Num m" "resolveConfig ?ct" ?w "calculateET ?w ?ct"]
      by (simp add: dec)
    then show ?thesis
      using assms(1,2) False
      by (simp add: generateRecommendation_def Let_def assms(3) p dec del: times_jsnum.simps)
  qed
qed

theorem stop_above_threshold_witness:
  "action (generateRecommendation noon (Some (example_reading ''Wheat'' (Some 65))) None [])
     = ''Stop''
   \<and> amount (generateRecommendation noon (Some (example_reading ''Wheat'' (Some 65))) None [])
     = Some (Num 0)
   \<and> hoursUntilNext
       (generateRecommendation noon (Some (example_reading ''Wheat'' (Some 65))) None [])
     = Some (Num 24)"
proof -
  have h1: "soil (example_reading ''Wheat'' (Some 65)) = Some (example_soil (Some 65))"
    by (simp add: example_reading_def)
  have h2: "moisture (example_soil (Some 65)) = Some 65"
    by (simp add: example_soil_def)
  have h3: "cfg_max (resolveConfig (resolveCropType (example_reading ''Wheat'' (Some 65)) None))
              = Some 50"
    by simp
  have h4: "stopThreshold 50 < 65" by (simp add: stopThreshold_def)
  show ?thesis
    using stop_above_threshold[OF h1 h2 h3, of noon "[]"] h4 by simp
qed

text \<open>
  The claim as it was stated fails: for Wheat (maximum 50) the moisture
  \<open>55 + 2 ^ - 47\<close>, a double, exceeds 1.1 times the maximum, and the engine answers
  "Maintain", because its product \<^verbatim>\<open>50 * 1.1\<close> is that same double.
\<close>

theorem stop_threshold_counterexample:
  "1.1 * 50 < (55 + 1 / 2 ^ 47 :: real)
   \<and> double (55 + 1 / 2 ^ 47) = 55 + 1 / 2 ^ 47
   \<and> action (generateRecommendation noon
        (Some (example_reading ''Wheat'' (Some (55 + 1 / 2 ^ 47)))) None []) = ''Maintain''"
proof -
  have "double (55 + 1 / 2 ^ 47) = 55 + 1 / 2 ^ 47"
    using double_val[of "55 + 1 / 2 ^ 47" 47 7740561859543041] by simp
  moreover have "action (generateRecommendation noon
        (Some (example_reading ''Wheat'' (Some (55 + 1 / 2 ^ 47)))) None []) = ''Maintain''"
    by (simp add: gen_defs threshold_values)
  ultimately show ?thesis by simp
qed

section \<open>Recommendation: irrigation\<close>

text \<open>The rows of the crop table with a minimum.\<close>

lemma profile_rows:
  assumes "cfg_min (resolveConfig ct) = Some mn"
  obtains mx kb depth where "resolveConfig ct = profile mn mx (of_int kb) depth"
    and "0 < mn" and "mn + 20 \<le> mx" and "mx \<le> 70" and "0 < kb" and "kb \<le> 55"
    and "0 < depth" and "depth \<le> 60"
proof -
  have *: "resolveConfig ct = profile mn' mx (of_int kb) depth \<Longrightarrow> 0 < mn' \<Longrightarrow>
      mn' + 20 \<le> mx \<Longrightarrow> mx \<le> 70 \<Longrightarrow> 0 < kb \<Longrightarrow> kb \<le> 55 \<Longrightarrow> 0 < depth \<Longrightarrow> depth \<le> 60
      \<Longrightarrow> thesis" for mn' mx kb depth
    using that[of mx kb depth] assms by simp
  show thesis
    using *[of 40 70 50 20] *[of 30 50 35 30] *[of 35 60 40 40] *[of 35 60 30 30]
      *[of 40 65 45 50] *[of 45 70 55 60] *[of 30 55 32 35] *[of 30 60 40 30] assms
    by (cases rule: resolveConfig_cases[of ct]) simp_all
qed

text \<open>The evapotranspiration, when it is a finite number, is not negative.\<close>

lemma calculateET_Num:
  assumes "calculateET w ct = Num e"
  shows "0 \<le> e" and "e < 2 ^ 1024"
proof -
  obtain x where x: "calculateET w ct = Math_max (Num 0) (x * Num 24)"
    by (simp add: calculateET_def Let_def)
  have "0 \<le> e \<and> e < 2 ^ 1024"
  proof (cases x)
    case (Num a)
    then have "x * Num 24 = fl (a * 24)" by simp
    then show ?thesis
      using assms fl_Num_bound[of "a * 24"]
      by (cases "fl (a * 24)") (auto simp: x max_def split: if_splits)
  qed (use assms x in auto)
  then show "0 \<le> e" and "e < 2 ^ 1024" by simp_all
qed

lemma no_delay:
  assumes "\<not> rainForecast w"
  shows "\<not> (truthy (num (case forecast w of None \<Rightarrow> None | Some f \<Rightarrow> nextRainHours f))
      \<and> num (case forecast w of None \<Rightarrow> None | Some f \<Rightarrow> nextRainHours f) < Num 6
      \<and> Num 50 < Num (or_num (chanceOfRain w) 0))"
  using assms by (auto simp: rainForecast_def or_num_def split: option.splits if_splits)

lemma decide_irrigate:
  assumes "m < mn" and "\<not> rainForecast w"
  shows "decide (Num m) (profile mn mx base depth) w dailyET =
     (''Irrigate'', irrigationAmount base mx depth m dailyET,
      Math_ceil (irrigationAmount base mx depth m dailyET / Num 1.5),
      Some (calculateNextIrrigationTime (Num m) (Num mx) dailyET),
      Msg ''Moisture ({}%) below threshold ({}%). Deficit: {}%.''
        [Num m, Num mn, Num mx - Num m])"
proof -
  have b: "(Num m < Num mn) = True"
    using assms(1) by simp
  have c: "(truthy (num (case forecast w of None \<Rightarrow> None | Some f \<Rightarrow> nextRainHours f))
      \<and> num (case forecast w of None \<Rightarrow> None | Some f \<Rightarrow> nextRainHours f) < Num 6
      \<and> Num 50 < Num (or_num (chanceOfRain w) 0)) = False"
    using no_delay[OF assms(2)] by simp
  show ?thesis
    unfolding decide_def Let_def
    by (simp only: irrigationAmount_def deficitVolume_def clamp_def profile_sel num_simps
          b c if_True if_False)
qed

text \<open>The deficit of a moisture below the minimum of a row is at least 20, or infinite.\<close>

lemma deficit_positive:
  assumes "m < mn" "mn + 20 \<le> mx"
  shows "Num mx - Num m = PInf \<or> (\<exists>y. Num mx - Num m = Num y \<and> 20 \<le> y)"
proof -
  have "double 20 \<le> double (mx - m)" using assms by (intro double_mono) simp
  moreover have "double 20 = 20" using double_of_int[of 20] by simp
  ultimately have "20 \<le> double (mx - m)" by simp
  then show ?thesis by (simp add: fl_def Let_def)
qed

lemma next_time_clamp:
  assumes "m < mn" "mn + 20 \<le> mx"
  shows "calculateNextIrrigationTime (Num m) (Num mx) dailyET
           = clamp (hoursToThreshold mx m dailyET) (Num 1) (Num 48)"
  using deficit_positive[OF assms]
  by (auto simp: calculateNextIrrigationTime_def Let_def clamp_def hoursToThreshold_def
        simp del: minus_Num)

lemma hoursToThreshold_nonneg:
  assumes "m < mn" "mn + 20 \<le> mx" "0 \<le> e" "e < 2 ^ 1024"
  shows "nonneg (hoursToThreshold mx m (Num e))"
proof -
  have e: "\<bar>e\<bar> \<le> 2 ^ 1023 * 2" using assms(3,4) by simp
  have "\<bar>e / 24\<bar> \<le> 2 ^ 1023" using e by simp
  then obtain h where h: "fl (e / 24) = Num h" "\<bar>h\<bar> \<le> 2 ^ 1023"
    using fl_finite[of "e / 24" 1023] by auto
  have h0: "0 \<le> h" using nonneg_fl[of "e / 24"] assms(3) h(1) by simp
  have "\<bar>h / 10\<bar> \<le> 2 ^ 1023" using h(2) by simp
  then obtain z where z: "fl (h / 10) = Num z" "\<bar>z\<bar> \<le> 2 ^ 1023"
    using fl_finite[of "h / 10" 1023] by auto
  have z0: "0 \<le> z" using nonneg_fl[of "h / 10"] h0 z(1) by simp
  have d: "Num e / Num 24 / Num 10 = Num z" by (simp add: h z)
  have ht: "hoursToThreshold mx m (Num e) = (Num mx - Num m) / Num z"
    unfolding hoursToThreshold_def d ..
  from deficit_positive[OF assms(1,2)] show ?thesis
  proof
    assume a: "Num mx - Num m = PInf"
    show ?thesis unfolding ht a using z0 by simp
  next
    assume "\<exists>y. Num mx - Num m = Num y \<and> 20 \<le> y"
    then obtain y where y: "Num mx - Num m = Num y" "20 \<le> y" by blast
    have "nonneg (fl (y / z))" using y(2) z0 by (intro nonneg_fl) simp
    then show ?thesis
      unfolding ht y(1) using y(2) z0 by simp
  qed
qed

lemma irrigationAmount_range:
  assumes "m < mn" "mn + 20 \<le> mx" "0 < depth" "0 \<le> e" "0 < kb" "kb \<le> 55"
  shows "\<exists>a. irrigationAmount (of_int kb) mx depth m (Num e) = Num a
           \<and> 0.5 * of_int kb \<le> a \<and> a \<le> 1.5 * of_int kb"
proof -
  have k1: "\<bar>kb\<bar> < 2 ^ 53" "\<bar>3 * kb\<bar> < 2 ^ 53" using assms(5,6) by simp_all
  have lo: "Num (of_int kb) * Num 0.5 = Num (0.5 * of_int kb)"
    using fl_half[OF k1(1)] by (simp add: mult.commute)
  have hi: "Num (of_int kb) * Num 1.5 = Num (1.5 * of_int kb)"
    using fl_half[OF k1(2)] by (simp add: mult.commute)
  have "nonneg (Num mx - Num m)"
    using deficit_positive[OF assms(1,2)] by auto
  then have "nonneg (deficitVolume mx m depth)"
    unfolding deficitVolume_def using assms(3)
    by (intro nonneg_times nonneg_divide) simp_all
  moreover have "nonneg (Num e * Num 0.5)" using assms(4) by (intro nonneg_times) simp_all
  ultimately have "deficitVolume mx m depth + Num e * Num 0.5 \<noteq> NaN"
    by (intro nonneg_not_NaN nonneg_plus)
  moreover have "0.5 * (of_int kb :: real) \<le> 1.5 * of_int kb" using assms(5) by simp
  ultimately show ?thesis
    unfolding irrigationAmount_def lo hi by (intro clamp_range)
qed

text \<open>
  Claim C2, as the code has it. For a reading whose moisture is below the minimum of the
  resolved profile and for which the forecast does not show rain within 6 hours with more
  than 50% chance, the action is "Irrigate". If moreover the evapotranspiration is a
  finite number, then, with \<open>a\<close> the specification's clamped amount in the engine's
  arithmetic: \<open>a\<close> lies in [0.5, 1.5] times \<open>waterPerIrrigation\<close>, the returned amount is \<open>a\<close>
  rounded to one decimal and lies in the same interval, the duration is the ceiling of
  \<open>a / 1.5\<close> (of the amount before rounding), and the hours until the next irrigation are
  the ceiling of the deficit ratio clamped to [1, 48], an integer from 1 to 48.
\<close>

theorem irrigate_below_min:
  assumes sl: "soil d = Some sl" and m: "moisture sl = Some m"
    and cfg: "resolveConfig (resolveCropType d crp) = cfg"
    and mn: "cfg_min cfg = Some mn" and below: "m < mn"
    and w: "w = (case weather d of None \<Rightarrow> noWeather | Some x \<Rightarrow> x)"
    and norain: "\<not> rainForecast w"
  shows "action (generateRecommendation clk (Some d) crp hist) = ''Irrigate''
    \<and> (\<forall>e. calculateET w (resolveCropType d crp) = Num e \<longrightarrow>
        (\<exists>mx base depth a r n.
           cfg_max cfg = Some mx \<and> waterPerIrrigation cfg = Some base
         \<and> rootDepth cfg = Some depth
         \<and> irrigationAmount base mx depth m (Num e) = Num a
         \<and> 0.5 * base \<le> a \<and> a \<le> 1.5 * base
         \<and> amount (generateRecommendation clk (Some d) crp hist) = Some (round1 (Num a))
         \<and> round1 (Num a) = Num r \<and> 0.5 * base \<le> r \<and> r \<le> 1.5 * base
         \<and> duration (generateRecommendation clk (Some d) crp hist)
             = Some (Math_ceil (Num a / Num 1.5))
         \<and> hoursUntilNext (generateRecommendation clk (Some d) crp hist)
             = Some (Math_ceil (clamp (hoursToThreshold mx m (Num e)) (Num 1) (Num 48)))
         \<and> Math_ceil (clamp (hoursToThreshold mx m (Num e)) (Num 1) (Num 48))
             = Num (of_int n)
         \<and> 1 \<le> n \<and> n \<le> 48))"
proof -
  let ?r = "generateRecommendation clk (Some d) crp hist"
  let ?ct = "resolveCropType d crp"
  from mn cfg have "cfg_min (resolveConfig ?ct) = Some mn" by simp
  then obtain mx kb depth where rc: "resolveConfig ?ct = profile mn mx (of_int kb) depth"
    and pos: "0 < mn" "mn + 20 \<le> mx" "mx \<le> 70" "0 < kb" "kb \<le> 55" "0 < depth"
    by (rule profile_rows)
  have prof: "cfg = profile mn mx (of_int kb) depth" using cfg rc by simp
  have "cfg_max (resolveConfig ?ct) = Some mx" by (simp add: rc)
  then have sp: "Num mx * Num (double 1.1) = Num (stopThreshold mx)" by (rule stop_product)
  have "m < stopThreshold mx" using below pos by (simp add: stopThreshold_def)
  then have notabove: "\<not> Num mx * Num (double 1.1) < Num m"
    by (simp add: sp del: times_jsnum.simps)
  have gen: "?r = (case decide (Num m) (profile mn mx (of_int kb) depth) w (calculateET w ?ct) of
                  (act, amt, dur, hrs, rsn) \<Rightarrow>
                    \<lparr>action = act, reason = rsn,
                     amount = Some (Math_round (amt * Num 10) / Num 10),
                     duration = Some dur,
                     recommendedTime = Some (getOptimalIrrigationTime clk w),
                     hoursUntilNext =
                       (case hrs of
                          None \<Rightarrow> None
                        | Some h \<Rightarrow> if truthy h then Some (Math_ceil h) else None),
                     priority = Some (getPriority act (Num m) (Num mn) (Num mx)),
                     et = Some (Math_round (calculateET w ?ct * Num 10) / Num 10)\<rparr>)"
    unfolding generateRecommendation_def Let_def option.case sl m rc w[symmetric]
      profile_sel num_simps if_not_P[OF notabove] ..
  have act: "action ?r = ''Irrigate''"
    by (simp add: gen decide_irrigate[OF below norain])
  have num: "\<exists>a r n.
           irrigationAmount (of_int kb) mx depth m (Num e) = Num a
         \<and> 0.5 * of_int kb \<le> a \<and> a \<le> 1.5 * of_int kb
         \<and> amount ?r = Some (round1 (Num a))
         \<and> round1 (Num a) = Num r \<and> 0.5 * of_int kb \<le> r \<and> r \<le> 1.5 * of_int kb
         \<and> duration ?r = Some (Math_ceil (Num a / Num 1.5))
         \<and> hoursUntilNext ?r
             = Some (Math_ceil (clamp (hoursToThreshold mx m (Num e)) (Num 1) (Num 48)))
         \<and> Math_ceil (clamp (hoursToThreshold mx m (Num e)) (Num 1) (Num 48))
             = Num (of_int n)
         \<and> 1 \<le> n \<and> n \<le> 48"
    if et: "calculateET w ?ct = Num e" for e
  proof -
    have e: "0 \<le> e" "e < 2 ^ 1024" by (rule calculateET_Num[OF et])+
    obtain a where a: "irrigationAmount (of_int kb) mx depth m (Num e) = Num a"
      "0.5 * of_int kb \<le> a" "a \<le> 1.5 * of_int kb"
      using irrigationAmount_range[OF below pos(2) pos(6) e(1) pos(4,5)] by blast
    have "\<exists>r. round1 (Num a) = Num r \<and> 0.5 * of_int kb \<le> r \<and> r \<le> 1.5 * of_int kb"
      using pos(4,5) by (intro round1_range[OF a(2,3), of kb "3 * kb"]) simp_all
    then obtain r where r: "round1 (Num a) = Num r" "0.5 * of_int kb \<le> r"
      "r \<le> 1.5 * of_int kb" by blast
    have "hoursToThreshold mx m (Num e) \<noteq> NaN"
      by (intro nonneg_not_NaN hoursToThreshold_nonneg[OF below pos(2) e])
    then obtain c where c: "clamp (hoursToThreshold mx m (Num e)) (Num 1) (Num 48) = Num c"
      "1 \<le> c" "c \<le> 48"
      using clamp_range[of 1 48 "hoursToThreshold mx m (Num e)"] by auto
    have n: "1 \<le> \<lceil>c\<rceil>" "\<lceil>c\<rceil> \<le> 48" using c(2,3) by (linarith, simp add: ceiling_le_iff)
    have tr: "truthy (Num c)" using c(2) by simp
    have dec: "decide (Num m) (profile mn mx (of_int kb) depth) w (Num e) =
       (''Irrigate'', Num a, Math_ceil (Num a / Num 1.5), Some (Num c),
        Msg ''Moisture ({}%) below threshold ({}%). Deficit: {}%.''
          [Num m, Num mn, Num mx - Num m])"
      by (simp only: decide_irrigate[OF below norain] a(1) next_time_clamp[OF below pos(2)] c(1))
    have am: "amount ?r = Some (round1 (Num a))"
      by (simp only: gen et dec prod.case recommendation.simps round1_def)
    have du: "duration ?r = Some (Math_ceil (Num a / Num 1.5))"
      by (simp only: gen et dec prod.case recommendation.simps)
    have ho: "hoursUntilNext ?r = Some (Math_ceil (Num c))"
      by (simp only: gen et dec prod.case recommendation.simps option.case if_P[OF tr])
    have ce: "Math_ceil (Num c) = Num (of_int \<lceil>c\<rceil>)" by simp
    show ?thesis
      using a am r du ho ce n unfolding c(1) by blast
  qed
  show ?thesis
    using act num by (simp add: prof)
qed

lemma rice_facts:
  "soil (rice_reading w) = Some (example_soil (Some 38.375))"
  "moisture (example_soil (Some 38.375)) = Some 38.375"
  "resolveConfig (resolveCropType (rice_reading w) None) = profile 40 70 50 20"
  "w = (case weather (rice_reading w) of None \<Rightarrow> noWeather | Some x \<Rightarrow> x)"
  "resolveCropType (rice_reading w) None = ''Rice''"
  by (simp_all add: rice_reading_def example_soil_def resolveCropType_def or_str_def)

lemma dry_air_dry: "\<not> rainForecast (example_weather T hu ws sr)"
  by (simp add: rainForecast_def example_weather_def)

text \<open>
  The evapotranspiration at temperature 0, humidity 50, no wind and solar radiation 500,
  where \<^verbatim>\<open>Math.exp(0)\<close> is 1: about 5.04.
\<close>

lemma et_example:
  "calculateET (example_weather 0 50 0 500) ''Rice''
     = Num (2838668379033973 / 562949953421312)"
  by (simp add: calculateET_def example_weather_def Let_def et_values)

text \<open>
  Rice at moisture 38.375 under that weather: the amount is 65.8 (the double nearest to
  it), the duration 44 minutes and the next irrigation due in 48 hours.
\<close>

theorem irrigate_below_min_witness:
  "(38.375::real) < 40 \<and> \<not> rainForecast (example_weather 0 50 0 500)
   \<and> action (generateRecommendation noon (Some (rice_reading (example_weather 0 50 0 500)))
        None []) = ''Irrigate''
   \<and> amount (generateRecommendation noon (Some (rice_reading (example_weather 0 50 0 500)))
        None []) = Some (Num (double 65.8))
   \<and> duration (generateRecommendation noon (Some (rice_reading (example_weather 0 50 0 500)))
        None []) = Some (Num 44)
   \<and> hoursUntilNext
        (generateRecommendation noon (Some (rice_reading (example_weather 0 50 0 500)))
           None []) = Some (Num 48)"
proof -
  let ?w = "example_weather 0 50 0 500"
  let ?r = "generateRecommendation noon (Some (rice_reading ?w)) None []"
  have h4: "cfg_min (profile 40 70 50 20) = Some 40" by simp
  have h5: "(38.375::real) < 40" by simp
  have et: "calculateET ?w (resolveCropType (rice_reading ?w) None)
              = Num (2838668379033973 / 562949953421312)"
    by (simp only: rice_facts(5) et_example)
  from irrigate_below_min[OF rice_facts(1,2,3) h4 h5 rice_facts(4) dry_air_dry,
      where clk = noon and hist = "[]"]
  have act: "action ?r = ''Irrigate''"
    and "\<exists>mx base depth a r n.
           cfg_max (profile 40 70 50 20) = Some mx
         \<and> waterPerIrrigation (profile 40 70 50 20) = Some base
         \<and> rootDepth (profile 40 70 50 20) = Some depth
         \<and> irrigationAmount base mx depth 38.375 (Num (2838668379033973 / 562949953421312))
             = Num a
         \<and> 0.5 * base \<le> a \<and> a \<le> 1.5 * base
         \<and> amount ?r = Some (round1 (Num a))
         \<and> round1 (Num a) = Num r \<and> 0.5 * base \<le> r \<and> r \<le> 1.5 * base
         \<and> duration ?r = Some (Math_ceil (Num a / Num 1.5))
         \<and> hoursUntilNext ?r
             = Some (Math_ceil (clamp (hoursToThreshold mx 38.375
                   (Num (2838668379033973 / 562949953421312))) (Num 1) (Num 48)))
         \<and> Math_ceil (clamp (hoursToThreshold mx 38.375
               (Num (2838668379033973 / 562949953421312))) (Num 1) (Num 48)) = Num (of_int n)
         \<and> 1 \<le> n \<and> n \<le> 48"
    using et by blast+
  then obtain a where
    a: "irrigationAmount 50 70 20 38.375 (Num (2838668379033973 / 562949953421312)) = Num a"
    and am: "amount ?r = Some (round1 (Num a))"
    and du: "duration ?r = Some (Math_ceil (Num a / Num 1.5))"
    and ho: "hoursUntilNext ?r
             = Some (Math_ceil (clamp (hoursToThreshold 70 38.375
                   (Num (2838668379033973 / 562949953421312))) (Num 1) (Num 48)))"
    by auto
  have av: "a = 4628239842926871 / 70368744177664"
    using a by (simp add: irrigationAmount_def deficitVolume_def clamp_def irrigate_values)
  have "amount ?r = Some (Num (double 65.8))"
    by (simp add: am av round1_def irrigate_values)
  moreover have "duration ?r = Some (Num 44)"
    by (simp add: du av irrigate_values)
  moreover have "hoursUntilNext ?r = Some (Num 48)"
    by (simp add: ho hoursToThreshold_def clamp_def irrigate_values)
  ultimately show ?thesis
    using act h5 dry_air_dry by simp
qed

text \<open>
  Claim C2 as stated fails. In saturated air (humidity 100) there is no evapotranspiration
  and the clamped amount for Rice at moisture 38.375 is 63.25 over the reals; the engine
  computes \<open>63.25 - 2 ^ - 47\<close> and returns 63.2 after rounding to one decimal. At
  temperature -240 in saturated air \<^verbatim>\<open>Math.exp\<close> overflows, the evapotranspiration is NaN and
  so is the amount, which then lies in no interval.
\<close>

theorem irrigate_amount_counterexample:
  "(38.375::real) < 40 \<and> \<not> rainForecast (example_weather 0 100 0 0)
   \<and> max (0.5 * 50) (min (1.5 * 50) ((70 - 38.375) / 100 * 20 * 10 + 0.5 * 0)) = (63.25::real)
   \<and> amount (generateRecommendation noon (Some (rice_reading (example_weather 0 100 0 0)))
        None []) = Some (Num (double 63.2))
   \<and> double 63.2 < 63.25
   \<and> \<not> rainForecast (example_weather (- 240) 100 0 0)
   \<and> calculateET (example_weather (- 240) 100 0 0) ''Rice'' = NaN
   \<and> action (generateRecommendation noon (Some (rice_reading (example_weather (- 240) 100 0 0)))
        None []) = ''Irrigate''
   \<and> amount (generateRecommendation noon (Some (rice_reading (example_weather (- 240) 100 0 0)))
        None []) = Some NaN"
proof -
  have 1: "amount (generateRecommendation noon
      (Some (rice_reading (example_weather 0 100 0 0))) None []) = Some (Num (double 63.2))"
    by (simp add: gen_defs rice_reading_def example_weather_def irrigate_values et_values
          threshold_values)
  have 2: "calculateET (example_weather (- 240) 100 0 0) ''Rice'' = NaN"
    by (simp add: calculateET_def example_weather_def Let_def et_values exp_overflow)
  have 3: "action (generateRecommendation noon
      (Some (rice_reading (example_weather (- 240) 100 0 0))) None []) = ''Irrigate''
    \<and> amount (generateRecommendation noon
      (Some (rice_reading (example_weather (- 240) 100 0 0))) None []) = Some NaN"
    by (simp add: gen_defs rice_reading_def example_weather_def irrigate_values et_values
          threshold_values exp_overflow)
  have 4: "double 63.2 < 63.25" by (simp add: irrigate_values)
  show ?thesis
    using 1 2 3 4 by (simp add: dry_air_dry)
qed


section \<open>Recommendation: priority\<close>

text \<open>
  The engine's product \<^verbatim>\<open>min * 0.7\<close> for the minima of the crop table: 0.7 times the minimum,
  except that \<^verbatim>\<open>45 * 0.7\<close> falls short of 31.5 by \<open>2 ^ - 48\<close>.
\<close>

lemma critical_product:
  assumes "cfg_min (resolveConfig ct) = Some mn"
  shows "Num mn * Num (double 0.7) = Num (if mn = 45 then 0.7 * mn - 1 / 2 ^ 48 else 0.7 * mn)"
  using assms
  by (cases rule: resolveConfig_cases[of ct]) (auto simp: threshold_values)

text \<open>
  The specification's example: moisture 18 for Wheat, no weather block and so no rain
  forecast, gives "Irrigate" with priority "Critical". With no weather block the
  evapotranspiration is NaN, and so are the amount, the duration and \<open>et\<close>.
\<close>

lemma critical_example:
  "generateRecommendation noon (Some (example_reading ''Wheat'' (Some 18))) crp hist =
   \<lparr>action = ''Irrigate'',
    reason = Msg ''Moisture ({}%) below threshold ({}%). Deficit: {}%.''
               [Num 18, Num 30, Num 32],
    amount = Some NaN, duration = Some NaN,
    recommendedTime = Some ''06:00 AM (Tomorrow)'', hoursUntilNext = None,
    priority = Some ''Critical'', et = Some NaN\<rparr>"
  by (simp add: gen_defs threshold_values)

text \<open>
  Claim C3. The recommendation carries a priority: "Critical", "High" or "Medium" for
  "Irrigate", "High" for "Stop", "Low" otherwise. \<open>getPriority\<close> computes this, but the
  "Stop" recommendation is returned early, before \<open>getPriority\<close> is called, and has no
  priority property: moisture 65 for Wheat (maximum 50) gives "Stop" without a priority.
\<close>

theorem stop_has_no_priority:
  "generateRecommendation clk (Some (example_reading ''Wheat'' (Some 65))) crp hist =
   \<lparr>action = ''Stop'',
    reason = Msg ''Moisture ({}%) exceeds safe range. Risk of waterlogging.'' [Num 65],
    amount = Some (Num 0), duration = Some (Num 0),
    recommendedTime = Some ''N/A'', hoursUntilNext = Some (Num 24),
    priority = None, et = None\<rparr>"
  by (simp add: gen_defs threshold_values)

section \<open>Recommendation: missing data\<close>

lemma decide_action:
  "fst (decide moist cfg w e) \<in> {''Delay'', ''Irrigate'', ''Monitor'', ''Maintain''}"
  by (simp add: decide_def Let_def)

lemma generateRecommendation_action:
  assumes "soil d = Some sl"
  shows "action (generateRecommendation clk (Some d) crp hist)
           \<in> {''Stop'', ''Delay'', ''Irrigate'', ''Monitor'', ''Maintain''}"
proof -
  let ?w = "case weather d of None \<Rightarrow> noWeather | Some x \<Rightarrow> x"
  let ?ct = "resolveCropType d crp"
  let ?dec = "decide (num (moisture sl)) (resolveConfig ?ct) ?w (calculateET ?w ?ct)"
  obtain act amt dur hrs rsn where dec: "?dec = (act, amt, dur, hrs, rsn)"
    by (cases ?dec) auto
  have "act \<in> {''Delay'', ''Irrigate'', ''Monitor'', ''Maintain''}"
    using decide_action[of "num (moisture sl)" "resolveConfig ?ct" ?w "calculateET ?w ?ct"]
    by (simp only: dec fst_conv)
  then show ?thesis
    using assms dec by (auto simp: generateRecommendation_def Let_def)
qed

text \<open>
  Claim C4, as the code has it. \<open>generateRecommendation\<close> returns the "Pending" object,
  with the reason "Collecting initial data...", exactly when there is no current reading
  or the reading has no soil block. The guard looks at the soil block only, not at its
  moisture.
\<close>

theorem pending_iff_no_soil:
  "(generateRecommendation clk currentData crp hist = pending)
     = (currentData = None \<or> (\<exists>d. currentData = Some d \<and> soil d = None))"
proof (cases currentData)
  case None
  then show ?thesis by (simp add: generateRecommendation_def)
next
  case (Some d)
  show ?thesis
  proof (cases "soil d")
    case None
    with Some show ?thesis by (simp add: generateRecommendation_def)
  next
    case (Some sl)
    have "action (generateRecommendation clk (Some d) crp hist) \<noteq> action pending"
      using generateRecommendation_action[OF Some, of clk crp hist]
      by (auto simp: pending_def)
    then have "generateRecommendation clk (Some d) crp hist \<noteq> pending" by auto
    with Some \<open>currentData = Some d\<close> show ?thesis by simp
  qed
qed

text \<open>
  A soil block without a moisture never gives "Pending": every comparison with the missing
  moisture is false, so the action is "Maintain".
\<close>

lemma maintain_without_moisture:
  assumes "soil d = Some sl" and "moisture sl = None"
  shows "action (generateRecommendation clk (Some d) crp hist) = ''Maintain''"
  using assms by (simp add: generateRecommendation_def decide_def Let_def)

text \<open>
  Claim C4 as stated fails: a reading whose soil block has no moisture does not give
  "Pending". Every comparison with the missing moisture is false, so the result is
  "Maintain" with the reason "Moisture levels are optimal.".
\<close>

theorem pending_without_moisture_counterexample:
  "generateRecommendation noon (Some (example_reading ''Wheat'' None)) None [] \<noteq> pending
   \<and> generateRecommendation noon (Some (example_reading ''Wheat'' None)) None [] =
     \<lparr>action = ''Maintain'',
      reason = Msg ''Moisture levels are optimal.'' [],
      amount = Some (Num 0), duration = Some (Num 0),
      recommendedTime = Some ''06:00 AM (Tomorrow)'', hoursUntilNext = None,
      priority = Some ''Low'', et = Some NaN\<rparr>"
  by (simp add: gen_defs)

section \<open>Anomalies: dry stress\<close>

lemma leakCheck_type: "a \<in> set (leakCheck clk h latest moist ct) \<Longrightarrow> type_a a = ''Leak''"
  by (auto simp: leakCheck_def Let_def mkAnomaly_def split: if_splits)

lemma dryStressCheck_type:
  "a \<in> set (dryStressCheck clk recent latest moist mn) \<Longrightarrow> type_a a = ''Dry Stress''"
  by (auto simp: dryStressCheck_def Let_def mkAnomaly_def split: if_splits)

lemma overIrrigationCheck_type:
  "a \<in> set (overIrrigationCheck clk recent latest moist mx) \<Longrightarrow> type_a a = ''Over-Irrigation''"
  by (auto simp: overIrrigationCheck_def Let_def mkAnomaly_def split: if_splits)

lemma abnormalPatternCheck_type:
  "a \<in> set (abnormalPatternCheck clk recent latest) \<Longrightarrow> type_a a = ''Abnormal Pattern''"
  by (auto simp: abnormalPatternCheck_def Let_def mkAnomaly_def split: if_splits)

lemma filter_other_type:
  assumes "\<And>a. a \<in> set xs \<Longrightarrow> type_a a = t" and "t \<noteq> t'"
  shows "filter (\<lambda>a. type_a a = t') xs = []"
  using assms by (auto simp: filter_empty_conv)

lemma filter_same_type:
  assumes "\<And>a. a \<in> set xs \<Longrightarrow> type_a a = t"
  shows "filter (\<lambda>a. type_a a = t) xs = xs"
  using assms by (auto simp: filter_id_conv)

lemma lowCount_Num:
  "filter (\<lambda>r. num (soilMoisture r) < Num mn) xs = filter (belowMin mn) xs"
  by (rule filter_cong) (auto simp: belowMin_def num_def split: option.splits)

text \<open>
  For the minima of the crop table the engine's products \<^verbatim>\<open>min * 0.8\<close> and \<^verbatim>\<open>min * 0.6\<close> are
  exact, so that its comparisons are those of the reals.
\<close>

lemma dryStressCheck_severity:
  "map severity (dryStressCheck clk recent latest (num mo) (num (cfg_min (resolveConfig ct)))) =
     (case (mo, cfg_min (resolveConfig ct)) of
        (Some m, Some mn) \<Rightarrow>
          if m < 0.8 * mn \<and> 5 \<le> length (filter (belowMin mn) recent)
          then [if m < 0.6 * mn then ''Critical'' else ''High'']
          else []
      | _ \<Rightarrow> [])"
  by (cases mo; cases rule: resolveConfig_cases[of ct])
     (simp_all add: dryStressCheck_def Let_def mkAnomaly_def lowCount_Num threshold_values)

lemma detect_dry_filter:
  "filter (\<lambda>a. type_a a = ''Dry Stress'')
     (leakCheck clk h latest moist ct @ dryStressCheck clk recent latest moist mn
        @ overIrrigationCheck clk recent latest moist mx @ abnormalPatternCheck clk recent latest)
   = dryStressCheck clk recent latest moist mn"
proof -
  have 1: "filter (\<lambda>a. type_a a = ''Dry Stress'') (leakCheck clk h latest moist ct) = []"
    by (rule filter_other_type[OF leakCheck_type]) simp_all
  have 2: "filter (\<lambda>a. type_a a = ''Dry Stress'') (dryStressCheck clk recent latest moist mn)
            = dryStressCheck clk recent latest moist mn"
    by (rule filter_same_type[OF dryStressCheck_type])
  have 3: "filter (\<lambda>a. type_a a = ''Dry Stress'') (overIrrigationCheck clk recent latest moist mx) = []"
    by (rule filter_other_type[OF overIrrigationCheck_type]) simp_all
  have 4: "filter (\<lambda>a. type_a a = ''Dry Stress'') (abnormalPatternCheck clk recent latest) = []"
    by (rule filter_other_type[OF abnormalPatternCheck_type]) simp_all
  show ?thesis by (simp add: 1 2 3 4)
qed

lemma dry_history_list:
  "dry_history = (let r = example_reading ''Wheat'' (Some 22) in [r, r, r, r, r, r, r, r, r, r])"
  by (simp add: dry_history_def eval_nat_numeral Let_def)

lemma dry_example_eval:
  "detectAnomalies noon (Some dry_history) None None =
     [\<lparr>type_a = ''Dry Stress'', severity = ''High'',
       message = Msg ''Soil moisture ({}%) below threshold for extended period. Crop stress risk.''
                   [Num 22],
       confidence = Num 91, field_a = ''Field 1'', timestamp_a = 0, status = ''Active''\<rparr>]"
  by (simp add: dry_history_list detectAnomalies_def Let_def example_reading_def example_soil_def
     leakCheck_def dryStressCheck_def overIrrigationCheck_def abnormalPatternCheck_def
     soilMoisture_def date_def resolveCropType_def or_str_def mkAnomaly_def List.map_filter_def
     noon_def threshold_values)

text \<open>
  Claim C5. \<open>detectAnomalies\<close> reports a "Dry Stress" anomaly exactly when the current
  moisture is below 0.8 times the minimum and at least 5 of the last 10 history records are
  below the minimum; there is then one such anomaly, of severity "Critical" if the moisture
  is below 0.6 times the minimum and "High" otherwise.
\<close>

theorem dry_stress_exactly:
  "map severity (filter (\<lambda>a. type_a a = ''Dry Stress'') (detectAnomalies clk history currentData crp))
     = (case dryStressExpected history currentData crp of None \<Rightarrow> [] | Some s \<Rightarrow> [s])"
proof (cases history)
  case None
  then show ?thesis by (simp add: detectAnomalies_def dryStressExpected_def)
next
  case (Some h)
  show ?thesis
  proof (cases "length h < 5")
    case True
    have "length (filter P (drop (length h - 10) h)) < 5" for P
    proof -
      have "length (filter P (drop (length h - 10) h)) \<le> length (drop (length h - 10) h)"
        by (rule length_filter_le)
      also have "\<dots> \<le> length h" by simp
      finally show ?thesis using True by linarith
    qed
    then have "\<not> 5 \<le> length (filter P (drop (length h - 10) h))" for P
      by (simp add: not_le)
    then show ?thesis
      using Some True
      by (simp add: detectAnomalies_def dryStressExpected_def split: option.splits)
  next
    case False
    then have ne: "h \<noteq> []" by auto
    define latest where "latest = (case currentData of Some d \<Rightarrow> d | None \<Rightarrow> h ! (length h - 1))"
    have lat: "(case currentData of Some d \<Rightarrow> Some d | None \<Rightarrow> if h = [] then None else Some (last h))
                = Some latest"
      using ne by (simp add: latest_def last_conv_nth split: option.splits)
    show ?thesis
    proof (cases "soil latest")
      case None
      then show ?thesis
        using Some False lat
        by (simp add: detectAnomalies_def dryStressExpected_def latest_def[symmetric]
              soilMoisture_def Let_def)
    next
      case (Some sl)
      let ?recent = "drop (length h - 10) h"
      let ?ct = "resolveCropType latest crp"
      let ?cfg = "resolveConfig ?ct"
      have det: "detectAnomalies clk history currentData crp =
          leakCheck clk h latest (num (moisture sl)) ?ct
          @ dryStressCheck clk ?recent latest (num (moisture sl)) (num (cfg_min ?cfg))
          @ overIrrigationCheck clk ?recent latest (num (moisture sl)) (num (cfg_max ?cfg))
          @ abnormalPatternCheck clk ?recent latest"
        using \<open>history = Some h\<close> False Some
        by (simp add: detectAnomalies_def latest_def[symmetric] Let_def)
      have lhs: "map severity (filter (\<lambda>a. type_a a = ''Dry Stress'')
                    (detectAnomalies clk history currentData crp))
          = (case (moisture sl, cfg_min ?cfg) of
               (Some m, Some mn) \<Rightarrow>
                 if m < 0.8 * mn \<and> 5 \<le> length (filter (belowMin mn) ?recent)
                 then [if m < 0.6 * mn then ''Critical'' else ''High'']
                 else []
             | _ \<Rightarrow> [])"
        by (simp only: det detect_dry_filter dryStressCheck_severity)
      have rhs: "dryStressExpected history currentData crp
          = (case (moisture sl, cfg_min ?cfg) of
               (Some m, Some mn) \<Rightarrow>
                 if m < 0.8 * mn \<and> 5 \<le> length (filter (belowMin mn) ?recent)
                 then Some (if m < 0.6 * mn then ''Critical'' else ''High'')
                 else None
             | _ \<Rightarrow> None)"
        using \<open>history = Some h\<close> Some
        by (simp add: dryStressExpected_def lat soilMoisture_def)
      show ?thesis
        by (simp only: lhs rhs) (simp split: option.splits)
    qed
  qed
qed

text \<open>
  The specification's example: ten consecutive readings at moisture 22 for Wheat (minimum
  30) give a "Dry Stress" anomaly of severity "High".
\<close>

theorem dry_stress_exactly_witness:
  "map severity (filter (\<lambda>a. type_a a = ''Dry Stress'')
      (detectAnomalies noon (Some dry_history) None None)) = [''High'']"
proof -
  have "dryStressExpected (Some dry_history) None None = Some ''High''"
    by (simp add: dry_history_list dryStressExpected_def Let_def example_reading_def
          example_soil_def soilMoisture_def resolveCropType_def or_str_def belowMin_def)
  with dry_stress_exactly[of noon "Some dry_history" None None] show ?thesis
    by simp
qed

section \<open>Evapotranspiration\<close>






lemma double_1 [simp]: "double 1 = 1"
  using double_of_int[of 1] by simp











section \<open>Water savings: records and days\<close>

lemma count_filter_upt_Suc:
  "length (filter P [0 ..< Suc n]) = (if P 0 then 1 else 0) + length (filter (P \<circ> Suc) [0 ..< n])"
proof -
  have "[0 ..< Suc n] = 0 # map Suc [0 ..< n]"
    by (simp add: upt_conv_Cons map_Suc_upt del: upt_Suc)
  then show ?thesis by (simp add: filter_map del: upt_Suc)
qed

lemma countIrrigationEvents_Cons:
  "countIrrigationEvents (p # r # rest) =
     (if num (soilMoisture r) < num (soilMoisture p) * Num (double 0.95) then 1 else 0)
       + countIrrigationEvents (r # rest)"
proof -
  let ?P = "\<lambda>xs index. index \<noteq> 0 \<and>
      num (soilMoisture (xs ! index)) < num (soilMoisture (xs ! (index - 1))) * Num (double 0.95)"
  have a: "length (filter (?P (p # r # rest)) [0 ..< Suc (Suc (length rest))])
        = length (filter (?P (p # r # rest) \<circ> Suc) [0 ..< Suc (length rest)])"
    by (subst count_filter_upt_Suc) simp
  have b: "length (filter (?P (p # r # rest) \<circ> Suc) [0 ..< Suc (length rest)])
        = (if num (soilMoisture r) < num (soilMoisture p) * Num (double 0.95) then 1 else 0)
          + length (filter (?P (p # r # rest) \<circ> Suc \<circ> Suc) [0 ..< length rest])"
    by (subst count_filter_upt_Suc) simp
  have c: "length (filter (?P (r # rest)) [0 ..< Suc (length rest)])
        = length (filter (?P (r # rest) \<circ> Suc) [0 ..< length rest])"
    by (subst count_filter_upt_Suc) simp
  have d: "?P (p # r # rest) \<circ> Suc \<circ> Suc = ?P (r # rest) \<circ> Suc"
    by (rule ext) simp
  show ?thesis
    unfolding countIrrigationEvents_def
    using a b c d by simp
qed

lemma countIrrigationEvents_dropEvents: "countIrrigationEvents xs = dropEvents xs"
proof (induction xs rule: dropEvents.induct)
  case (1 p r rest)
  then show ?case
    by (simp add: countIrrigationEvents_Cons num_def split: option.splits)
qed (simp_all add: countIrrigationEvents_def)

lemma round_of_int: "\<lfloor>of_int k + (1::real) / 2\<rfloor> = k"
  by linarith

text \<open>
  The quotient of a span of at most \<open>2 ^ 52\<close> milliseconds by the milliseconds of a day
  rounds to a double with the same ceiling: an integer is a double, and so is the integer
  below the ceiling plus \<open>2 ^ - 27\<close>, which is below the quotient.
\<close>

lemma ceiling_days:
  fixes d :: int
  assumes d: "\<bar>d\<bar> \<le> 2 ^ 52"
  shows "\<lceil>double (of_int d / 86400000)\<rceil> = \<lceil>of_int d / (86400000::real)\<rceil>"
proof -
  define q where "q = of_int d / (86400000::real)"
  define k where "k = \<lceil>q\<rceil>"
  have k1: "of_int k - 1 < q" and k2: "q \<le> of_int k"
    unfolding k_def by linarith+
  have "\<bar>of_int d :: real\<bar> \<le> of_int (2 ^ 52)" using d by linarith
  then have db: "\<bar>of_int d :: real\<bar> \<le> 4503599627370496" by simp
  have qb: "\<bar>q\<bar> \<le> 52124996" using db by (simp add: q_def)
  have kb: "\<bar>k - 1\<bar> \<le> 52124997" using qb k1 k2 by linarith
  have "of_int (86400000 * (k - 1)) < (of_int d :: real)"
    using k1 by (simp add: q_def field_simps)
  then have "86400000 * (k - 1) < d" by (simp only: of_int_less_iff)
  then have "86400000 * (k - 1) + 1 \<le> d" by simp
  then have "(of_int (86400000 * (k - 1) + 1) :: real) \<le> of_int d"
    by (simp only: of_int_le_iff)
  then have ql: "of_int (k - 1) + 1 / 86400000 \<le> q" by (simp add: q_def field_simps)
  define c :: real where "c = of_int (134217728 * (k - 1) + 1) * p2 (- 27)"
  have p27: "p2 (- 27) = 1 / 134217728" using p2_neg_nat[of 27] by simp
  have c_eq: "c = of_int (k - 1) + 1 / 134217728" by (simp add: c_def p27 field_simps)
  have cq: "c \<le> q" using ql c_eq by simp
  have "- 52124997 \<le> k - 1" "k - 1 \<le> 52124997" using kb by linarith+
  then have "- 9007199254740992 < 134217728 * (k - 1) + 1"
    "134217728 * (k - 1) + 1 < 9007199254740992" by simp_all
  then have "\<bar>134217728 * (k - 1) + 1\<bar> < 9007199254740992" by linarith
  then have nb: "\<bar>134217728 * (k - 1) + 1\<bar> < 2 ^ 53" by simp
  have dc: "double c = c"
    by (rule double_exact[where n = "134217728 * (k - 1) + 1" and e = "- 27", OF _ nb])
       (simp_all add: c_def)
  have lo: "c \<le> double q" using double_mono[OF cq] dc by simp
  have "\<bar>k\<bar> \<le> 2 ^ 53" using kb by simp
  then have "double (of_int k) = of_int k" by (rule double_of_int)
  then have hi: "double q \<le> of_int k" using double_mono[OF k2] by simp
  have "\<lceil>double q\<rceil> = k"
    using lo hi c_eq by (intro ceiling_unique) simp_all
  then show ?thesis by (simp add: q_def k_def)
qed

lemma days_value:
  assumes "\<bar>t0 - tn\<bar> \<le> 2 ^ 52"
  shows "Math_ceil ((date (Some t0) - date (Some tn)) / Num 86400000)
           = Num (of_int (windowDays t0 tn))"
proof -
  have b: "\<bar>t0 - tn\<bar> \<le> 2 ^ 53" using assms by simp
  have "Num (of_int t0) - Num (of_int tn) = fl (of_int (t0 - tn))" by simp
  also have "\<dots> = Num (of_int (t0 - tn))" by (rule fl_of_int[OF b])
  finally have s: "date (Some t0) - date (Some tn) = Num (of_int (t0 - tn))"
    by (simp add: date_def)
  define q where "q = of_int (t0 - tn) / (86400000::real)"
  have "\<bar>of_int (t0 - tn) :: real\<bar> \<le> of_int (2 ^ 52)" using assms by linarith
  then have "\<bar>of_int (t0 - tn) :: real\<bar> \<le> 4503599627370496" by simp
  then have qb: "- 4503599627370496 \<le> q" "q \<le> 4503599627370496" by (simp_all add: q_def)
  have "\<exists>y. fl q = Num y \<and> - 4503599627370496 \<le> y \<and> y \<le> 4503599627370496"
    using qb
    by (intro fl_between) (simp_all add: double_of_int[of "4503599627370496", simplified]
          double_minus)
  then have f: "fl q = Num (double q)" by (auto simp: fl_def Let_def split: if_splits)
  have "Num (of_int (t0 - tn)) / Num 86400000 = fl q"
    unfolding q_def by simp
  then have "Math_ceil ((date (Some t0) - date (Some tn)) / Num 86400000)
      = Num (of_int \<lceil>double q\<rceil>)"
    by (simp only: s f Math_ceil.simps)
  also have "\<lceil>double q\<rceil> = windowDays t0 tn"
    unfolding q_def windowDays_def by (rule ceiling_days[OF assms])
  finally show ?thesis .
qed

lemma baseline_value:
  fixes k :: int
  assumes "\<bar>k\<bar> \<le> 2 ^ 40"
  shows "Num 40 * Num (of_int k) = Num (40 * of_int k)"
    and "round1 (Num (40 * of_int k)) = Num (40 * of_int k)"
proof -
  have a: "\<bar>40 * k\<bar> \<le> 2 ^ 53" "\<bar>400 * k\<bar> \<le> 2 ^ 53" using assms by simp_all
  have "fl (of_int (40 * k)) = Num (of_int (40 * k))" by (rule fl_of_int[OF a(1)])
  then show 1: "Num 40 * Num (of_int k) = Num (40 * of_int k)" by simp
  have 2: "fl (of_int (400 * k)) = Num (of_int (400 * k))" by (rule fl_of_int[OF a(2)])
  have "Num (40 * of_int k) * Num 10 = Num (of_int (400 * k))" using 2 by simp
  moreover have "Num (of_int (400 * k)) / Num 10 = Num (40 * of_int k)"
    using \<open>fl (of_int (40 * k)) = Num (of_int (40 * k))\<close> by simp
  ultimately show "round1 (Num (40 * of_int k)) = Num (40 * of_int k)"
    using round_of_int[of "400 * k"] by (simp add: round1_def del: times_jsnum.simps divide_jsnum.simps)
qed

lemma windowDays_bound:
  assumes "\<bar>t0 - tn\<bar> \<le> 2 ^ 52"
  shows "\<bar>windowDays t0 tn\<bar> \<le> 2 ^ 40"
proof -
  have "\<bar>of_int (t0 - tn) :: real\<bar> \<le> of_int (2 ^ 52)" using assms by linarith
  then have "\<bar>of_int (t0 - tn) :: real\<bar> \<le> 4503599627370496" by simp
  then have "\<bar>of_int (t0 - tn) / (86400000::real)\<bar> \<le> 52124996" by simp
  then have "\<bar>windowDays t0 tn\<bar> \<le> 52124997" unfolding windowDays_def by linarith
  then show ?thesis by simp
qed

lemma truthy_iff: "truthy a = (a \<noteq> Num 0 \<and> a \<noteq> NaN)"
  by (cases a) auto

lemma amountOrDefault_code:
  "(case rec of None \<Rightarrow> Num 35
    | Some r \<Rightarrow> (case amount r of None \<Rightarrow> Num 35
                | Some a \<Rightarrow> if truthy a then a else Num 35)) = amountOrDefault rec"
  by (auto simp: amountOrDefault_def truthy_iff split: option.splits)

lemma water_savings_some:
  assumes h: "7 \<le> length h" and t0: "timestamp (hd h) = Some t0"
    and tn: "timestamp (last h) = Some tn" and span: "\<bar>t0 - tn\<bar> \<le> 2 ^ 52"
  shows "baseline (calculateWaterSavings (Some h) rec) = Num (40 * of_int (windowDays t0 tn))
      \<and> irrigationEvents (calculateWaterSavings (Some h) rec)
          = Some (dropEvents (take 168 h))
      \<and> optimized (calculateWaterSavings (Some h) rec)
          = round1 (Num (of_nat (dropEvents (take 168 h))) * amountOrDefault rec)
      \<and> saved (calculateWaterSavings (Some h) rec)
          = round1 (Math_max (Num 0)
              (Num (40 * of_int (windowDays t0 tn))
                 - Num (of_nat (dropEvents (take 168 h))) * amountOrDefault rec))
      \<and> daysAnalyzed (calculateWaterSavings (Some h) rec)
          = Some (Num (min 7 (of_int (windowDays t0 tn))))"
proof -
  have ne: "h \<noteq> []" using h by auto
  have t0': "timestamp (h ! 0) = Some t0" using t0 ne by (simp add: hd_conv_nth)
  have tn': "timestamp (h ! (length h - 1)) = Some tn"
    using tn ne by (simp add: last_conv_nth)
  have tk: "take (min 168 (length h)) h = take 168 h" by (simp add: min_def)
  have d: "Math_ceil ((date (Some t0) - date (Some tn)) / Num (1000 * 60 * 60 * 24))
             = Num (of_int (windowDays t0 tn))"
    using days_value[OF span] by simp
  have kb: "\<bar>windowDays t0 tn\<bar> \<le> 2 ^ 40" by (rule windowDays_bound[OF span])
  have l: "\<not> length h < 7" using h by simp
  have "calculateWaterSavings (Some h) rec =
      \<lparr>saved = round1 (Math_max (Num 0)
                 (Num 40 * Num (of_int (windowDays t0 tn))
                    - Num (of_nat (dropEvents (take 168 h))) * amountOrDefault rec)),
       percentage = round1
         (if Num 0 < Num 40 * Num (of_int (windowDays t0 tn))
          then Math_max (Num 0)
                 (Num 40 * Num (of_int (windowDays t0 tn))
                    - Num (of_nat (dropEvents (take 168 h))) * amountOrDefault rec)
               / (Num 40 * Num (of_int (windowDays t0 tn))) * Num 100
          else Num 0),
       baseline = round1 (Num 40 * Num (of_int (windowDays t0 tn))),
       optimized = round1 (Num (of_nat (dropEvents (take 168 h))) * amountOrDefault rec),
       irrigationEvents = Some (dropEvents (take 168 h)),
       daysAnalyzed = Some (Math_min (Num 7) (Num (of_int (windowDays t0 tn))))\<rparr>"
    unfolding calculateWaterSavings_def Let_def option.case if_not_P[OF l] t0' tn' d tk
      amountOrDefault_code countIrrigationEvents_dropEvents round1_def ..
  then show ?thesis
    by (simp add: baseline_value[OF kb] del: times_jsnum.simps)
qed

text \<open>
  Claim C7, as the code has it. \<open>calculateWaterSavings\<close> returns the all-zero result when
  the history is absent or has fewer than 7 records, whatever time the records span. With
  7 or more records whose first and last carry timestamps at most \<open>2 ^ 52\<close> milliseconds
  apart, the baseline is 40 times the days in the window, the events are counted over the
  first 168 records, at each record whose moisture is below the engine's product of 0.95
  and the moisture of the record before it in the list, and the optimized amount is the
  events times the recommendation's amount (35 when that is absent, zero or NaN), rounded
  to one decimal.
\<close>

theorem water_savings_by_records:
  "(historicalData = None \<or> (\<exists>h. historicalData = Some h \<and> length h < 7)
      \<longrightarrow> calculateWaterSavings historicalData rec = noSavings)
   \<and> (\<forall>h t0 tn.
        historicalData = Some h \<and> 7 \<le> length h \<and> timestamp (hd h) = Some t0
        \<and> timestamp (last h) = Some tn \<and> \<bar>t0 - tn\<bar> \<le> 2 ^ 52
      \<longrightarrow> baseline (calculateWaterSavings historicalData rec)
            = Num (40 * of_int (windowDays t0 tn))
        \<and> irrigationEvents (calculateWaterSavings historicalData rec)
            = Some (dropEvents (take 168 h))
        \<and> optimized (calculateWaterSavings historicalData rec)
            = round1 (Num (of_nat (dropEvents (take 168 h))) * amountOrDefault rec)
        \<and> saved (calculateWaterSavings historicalData rec)
            = round1 (Math_max (Num 0)
                (Num (40 * of_int (windowDays t0 tn))
                   - Num (of_nat (dropEvents (take 168 h))) * amountOrDefault rec))
        \<and> daysAnalyzed (calculateWaterSavings historicalData rec)
            = Some (Num (min 7 (of_int (windowDays t0 tn)))))"
proof (rule conjI)
  show "historicalData = None \<or> (\<exists>h. historicalData = Some h \<and> length h < 7)
      \<longrightarrow> calculateWaterSavings historicalData rec = noSavings"
    by (auto simp: calculateWaterSavings_def)
next
  show "\<forall>h t0 tn.
        historicalData = Some h \<and> 7 \<le> length h \<and> timestamp (hd h) = Some t0
        \<and> timestamp (last h) = Some tn \<and> \<bar>t0 - tn\<bar> \<le> 2 ^ 52
      \<longrightarrow> baseline (calculateWaterSavings historicalData rec)
            = Num (40 * of_int (windowDays t0 tn))
        \<and> irrigationEvents (calculateWaterSavings historicalData rec)
            = Some (dropEvents (take 168 h))
        \<and> optimized (calculateWaterSavings historicalData rec)
            = round1 (Num (of_nat (dropEvents (take 168 h))) * amountOrDefault rec)
        \<and> saved (calculateWaterSavings historicalData rec)
            = round1 (Math_max (Num 0)
                (Num (40 * of_int (windowDays t0 tn))
                   - Num (of_nat (dropEvents (take 168 h))) * amountOrDefault rec))
        \<and> daysAnalyzed (calculateWaterSavings historicalData rec)
            = Some (Num (min 7 (of_int (windowDays t0 tn))))"
  proof (intro allI impI, elim conjE)
    fix h t0 tn
    assume "historicalData = Some h" "7 \<le> length h" "timestamp (hd h) = Some t0"
      "timestamp (last h) = Some tn" "\<bar>t0 - tn\<bar> \<le> 2 ^ 52"
    then show "baseline (calculateWaterSavings historicalData rec)
            = Num (40 * of_int (windowDays t0 tn))
        \<and> irrigationEvents (calculateWaterSavings historicalData rec)
            = Some (dropEvents (take 168 h))
        \<and> optimized (calculateWaterSavings historicalData rec)
            = round1 (Num (of_nat (dropEvents (take 168 h))) * amountOrDefault rec)
        \<and> saved (calculateWaterSavings historicalData rec)
            = round1 (Math_max (Num 0)
                (Num (40 * of_int (windowDays t0 tn))
                   - Num (of_nat (dropEvents (take 168 h))) * amountOrDefault rec))
        \<and> daysAnalyzed (calculateWaterSavings historicalData rec)
            = Some (Num (min 7 (of_int (windowDays t0 tn))))"
      using water_savings_some[of h t0 tn rec] by simp
  qed
qed

lemma daily_history_list:
  "daily_history = [stamped 518400000 40, stamped 432000000 30, stamped 345600000 40,
     stamped 259200000 30, stamped 172800000 40, stamped 86400000 40, stamped 0 40]"
  by (simp add: daily_history_def)

lemma daily_facts:
  "length daily_history = 7" "timestamp (hd daily_history) = Some 518400000"
  "timestamp (last daily_history) = Some 0"
  by (simp_all add: daily_history_list stamped_def)

lemma daily_events: "dropEvents (take 168 daily_history) = 2"
  by (simp add: daily_history_list stamped_def soilMoisture_def example_soil_def
        savings_values)

lemma daily_days: "windowDays 518400000 0 = 6"
  by (simp add: windowDays_def)

text \<open>
  Seven daily readings with two irrigation events and no recommendation: a window of 6
  days, a baseline of 240, an optimized amount of 2 times 35 and a saving of 170.
\<close>

theorem water_savings_by_records_witness:
  "calculateWaterSavings None None = noSavings
   \<and> baseline (calculateWaterSavings (Some daily_history) None) = Num 240
   \<and> irrigationEvents (calculateWaterSavings (Some daily_history) None) = Some 2
   \<and> optimized (calculateWaterSavings (Some daily_history) None) = Num 70
   \<and> saved (calculateWaterSavings (Some daily_history) None) = Num 170
   \<and> daysAnalyzed (calculateWaterSavings (Some daily_history) None) = Some (Num 6)"
proof -
  have z: "calculateWaterSavings None None = noSavings"
    using water_savings_by_records[of None None] by simp
  have p: "Some daily_history = Some daily_history \<and> 7 \<le> length daily_history
      \<and> timestamp (hd daily_history) = Some 518400000
      \<and> timestamp (last daily_history) = Some 0 \<and> \<bar>518400000 - 0 :: int\<bar> \<le> 2 ^ 52"
    by (simp add: daily_facts)
  from water_savings_by_records[of "Some daily_history" None] p
  have "baseline (calculateWaterSavings (Some daily_history) None)
            = Num (40 * of_int (windowDays 518400000 0))
        \<and> irrigationEvents (calculateWaterSavings (Some daily_history) None)
            = Some (dropEvents (take 168 daily_history))
        \<and> optimized (calculateWaterSavings (Some daily_history) None)
            = round1 (Num (of_nat (dropEvents (take 168 daily_history))) * amountOrDefault None)
        \<and> saved (calculateWaterSavings (Some daily_history) None)
            = round1 (Math_max (Num 0)
                (Num (40 * of_int (windowDays 518400000 0))
                   - Num (of_nat (dropEvents (take 168 daily_history))) * amountOrDefault None))
        \<and> daysAnalyzed (calculateWaterSavings (Some daily_history) None)
            = Some (Num (min 7 (of_int (windowDays 518400000 0))))"
    by blast
  then show ?thesis
    using z by (simp add: daily_events daily_days round1_def amountOrDefault_def)
qed

lemma hourly_history_list:
  "hourly_history = [stamped 21600000 40, stamped 18000000 40, stamped 14400000 40,
     stamped 10800000 40, stamped 7200000 40, stamped 3600000 40, stamped 0 40]"
  by (simp add: hourly_history_def)

lemma hourly_facts:
  "length hourly_history = 7" "timestamp (hd hourly_history) = Some 21600000"
  "timestamp (last hourly_history) = Some 0" "dropEvents (take 168 hourly_history) = 0"
  by (simp_all add: hourly_history_list stamped_def soilMoisture_def example_soil_def
        savings_values)

lemma quarter_day: "\<lceil>(1::real) / 4\<rceil> = 1"
  by (rule ceiling_unique) simp_all

text \<open>
  Claim C7 as stated fails: the guard counts records, not days. Seven hourly readings
  cover six hours, yet the result is not all-zero: the window is one day, the baseline 40
  and the saving 100 percent.
\<close>

theorem water_savings_counterexample:
  "length hourly_history = 7
   \<and> timestamp (hd hourly_history) = Some (6 * 3600000)
   \<and> timestamp (last hourly_history) = Some 0
   \<and> calculateWaterSavings (Some hourly_history) None =
       \<lparr>saved = Num 40, percentage = Num 100, baseline = Num 40, optimized = Num 0,
        irrigationEvents = Some 0, daysAnalyzed = Some (Num 1)\<rparr>
   \<and> calculateWaterSavings (Some hourly_history) None \<noteq> noSavings"
proof -
  have e: "countIrrigationEvents hourly_history = 0"
    using hourly_facts(4) by (simp add: countIrrigationEvents_dropEvents hourly_history_list)
  have "calculateWaterSavings (Some hourly_history) None =
       \<lparr>saved = Num 40, percentage = Num 100, baseline = Num 40, optimized = Num 0,
        irrigationEvents = Some 0, daysAnalyzed = Some (Num 1)\<rparr>"
    using e
    by (simp add: calculateWaterSavings_def Let_def hourly_facts(1))
       (simp add: hourly_history_list stamped_def date_def quarter_day savings_values)
  then show ?thesis
    by (simp add: hourly_facts noSavings_def)
qed

text \<open>
  The engine's test for a drop of more than 5 percent is a comparison of doubles: from
  moisture 22 to the double nearest 20.9, which is below 0.95 times 22, no event is counted.
\<close>

lemma drop_boundary:
  "double 20.9 < 0.95 * 22 \<and> \<not> Num (double 20.9) < Num 22 * Num (double 0.95)"
  by (simp add: savings_values)


section \<open>Yield health: range of the score\<close>

lemma yield_health_absent:
  "predictYieldHealth None crp = Num 0"
  "soil d = None \<Longrightarrow> predictYieldHealth (Some d) crp = Num 0"
  "weather d = None \<Longrightarrow> predictYieldHealth (Some d) crp = Num 0"
  by (simp_all add: predictYieldHealth_def split: option.splits)

lemma yield_health_example:
  "predictYieldHealth (Some (health_reading (Some 40))) None = Num 100"
  by (simp add: predictYieldHealth_def health_reading_def health_soil_def example_weather_def
        Let_def closeness_def moistureScore_def or_num_def resolveCropType_def or_str_def
        health_values)

text \<open>
  Claim C8. \<open>predictYieldHealth\<close> always returns a value in [0, 100]. The code breaks
  this for a reading whose soil block has no moisture: the three moisture branches are
  all skipped by the comparisons with the missing value except the last, whose arithmetic
  gives NaN, and the final clamp returns NaN. The initial score 0.5 that the code assigns
  is never used.
\<close>

theorem yield_health_nan_without_moisture:
  "predictYieldHealth (Some (health_reading None)) None = NaN"
  by (simp add: predictYieldHealth_def health_reading_def health_soil_def example_weather_def
        Let_def closeness_def moistureScore_def or_num_def resolveCropType_def or_str_def)


section \<open>Anomalies: dry stress and over-irrigation exclude each other\<close>

lemma detectAnomalies_shape:
  obtains (empty) "detectAnomalies clk history currentData crp = []"
  | (checks) h latest sl recent ct where
      "detectAnomalies clk history currentData crp =
        leakCheck clk h latest (num (moisture (sl::soil))) ct
        @ dryStressCheck clk recent latest (num (moisture sl)) (num (cfg_min (resolveConfig ct)))
        @ overIrrigationCheck clk recent latest (num (moisture sl))
            (num (cfg_max (resolveConfig ct)))
        @ abnormalPatternCheck clk recent latest"
proof (cases history)
  case None
  then show ?thesis by (simp add: detectAnomalies_def empty)
next
  case (Some h)
  show ?thesis
  proof (cases "length h < 5")
    case True
    with Some show ?thesis by (simp add: detectAnomalies_def empty)
  next
    case False
    define latest where "latest = (case currentData of Some d \<Rightarrow> d | None \<Rightarrow> h ! (length h - 1))"
    show ?thesis
    proof (cases "soil latest")
      case None
      with Some False show ?thesis
        by (simp add: detectAnomalies_def latest_def[symmetric] Let_def empty)
    next
      case (Some sl)
      have "detectAnomalies clk history currentData crp =
          leakCheck clk h latest (num (moisture sl)) (resolveCropType latest crp)
          @ dryStressCheck clk (drop (length h - 10) h) latest (num (moisture sl))
              (num (cfg_min (resolveConfig (resolveCropType latest crp))))
          @ overIrrigationCheck clk (drop (length h - 10) h) latest (num (moisture sl))
              (num (cfg_max (resolveConfig (resolveCropType latest crp))))
          @ abnormalPatternCheck clk (drop (length h - 10) h) latest"
        using \<open>history = Some h\<close> False Some
        by (simp add: detectAnomalies_def latest_def[symmetric] Let_def)
      then show ?thesis by (rule checks)
    qed
  qed
qed

lemma exclusive_checks:
  "dryStressCheck clk recent latest (num mo) (num (cfg_min (resolveConfig ct))) = []
   \<or> overIrrigationCheck clk recent latest (num mo) (num (cfg_max (resolveConfig ct))) = []"
proof (cases mo)
  case None
  then show ?thesis by (simp add: dryStressCheck_def Let_def)
next
  case (Some m)
  show ?thesis
    by (cases rule: resolveConfig_cases[of ct])
       (auto simp: Some dryStressCheck_def overIrrigationCheck_def Let_def threshold_values)
qed

text \<open>
  Claim C10. One call of \<open>detectAnomalies\<close> never returns both a "Dry Stress" and an
  "Over-Irrigation" anomaly. Every profile that the engine can resolve is a row of the
  built-in table, where the product \<^verbatim>\<open>min * 0.8\<close> is below the product \<^verbatim>\<open>max * 1.15\<close>, or an
  inherited member without a minimum, so this holds for every input.
\<close>

theorem dry_and_over_exclusive:
  "\<not> ((\<exists>a \<in> set (detectAnomalies clk history currentData crp). type_a a = ''Dry Stress'')
      \<and> (\<exists>a \<in> set (detectAnomalies clk history currentData crp).
            type_a a = ''Over-Irrigation''))"
proof (cases rule: detectAnomalies_shape[of clk history currentData crp])
  case empty
  then show ?thesis by simp
next
  case (checks h latest sl recent ct)
  from exclusive_checks[of clk recent latest "moisture sl" ct] show ?thesis
  proof
    assume e: "dryStressCheck clk recent latest (num (moisture sl))
                 (num (cfg_min (resolveConfig ct))) = []"
    have "\<not> (\<exists>a \<in> set (detectAnomalies clk history currentData crp). type_a a = ''Dry Stress'')"
      unfolding checks e
      by (auto dest: leakCheck_type overIrrigationCheck_type abnormalPatternCheck_type)
    then show ?thesis by blast
  next
    assume e: "overIrrigationCheck clk recent latest (num (moisture sl))
                 (num (cfg_max (resolveConfig ct))) = []"
    have "\<not> (\<exists>a \<in> set (detectAnomalies clk history currentData crp).
               type_a a = ''Over-Irrigation'')"
      unfolding checks e
      by (auto dest: leakCheck_type dryStressCheck_type abnormalPatternCheck_type)
    then show ?thesis by blast
  qed
qed


end
